theory Spec2Isabelle
  imports Main "HOL-Library.Word"
begin

unbundle bit_operations_syntax

section \<open>The compute-shader test case of vktSpvAsmComputeShaderCase.cpp\<close>

text \<open>
  The file under verification runs one SPIR-V compute shader on a Vulkan device: it
  creates a storage buffer per declared input and output, fills the inputs, zeroes the
  outputs, binds all buffers through one descriptor set, records and submits a single
  dispatch, waits for the fence and compares every output with the expected bytes.

  The driver (\<open>DeviceInterface\<close>), the allocator and the framework helpers of
  \<open>vkRefUtil\<close>, \<open>vkMemUtil\<close> and \<open>vkBuilderUtil\<close> are not part of the file. They
  are modelled as a device whose behaviour is a parameter (\<open>Context\<close>): every entry
  point that can fail takes its result code from the context, every driver entry
  point reached is appended, with its arguments, to a trace (\<open>calls\<close>), and what the
  device writes while the dispatch runs is an arbitrary function of the context. The
  constant arguments \<open>vkdi\<close> and \<open>device\<close> are left out of the calls, and so are the
  structure fields that are always \<open>sType\<close>, a null pointer or a zero index.
  \<open>getBufferMemoryRequirements\<close> cannot fail and is a query of the context. Destructors
  of the \<open>Unique\<close> and \<open>SharedPtr\<close> wrappers are not modelled.
\<close>

subsection \<open>Values\<close>

type_synonym byte = "8 word"
type_synonym handle = nat
type_synonym deUint32 = "32 word"
type_synonym deUint64 = "64 word"

text \<open>
  \<open>BufferSp\<close>: the header declaring \<open>BufferInterface\<close> is not among the sources.
  Modelled from the spec: a buffer is its bytes and their count, so \<open>getNumBytes\<close> is
  the length of what \<open>data\<close> points to.
\<close>

type_synonym BufferSp = "byte list"

definition getNumBytes :: "BufferSp \<Rightarrow> nat" where
  "getNumBytes b = length b"

definition data :: "BufferSp \<Rightarrow> byte list" where
  "data b = b"

text \<open>
  \<open>tcu::IVec3\<close> holds three 32-bit \<open>int\<close>s; \<open>cmdDispatch\<close> takes three \<open>deUint32\<close>. The
  implicit conversion keeps the 32 bits, so both sides are \<open>32 word\<close> (read with
  \<open>sint\<close> on the specification's side and with \<open>unat\<close> on the driver's).
\<close>

record IVec3 =
  vec_x :: deUint32
  vec_y :: deUint32
  vec_z :: deUint32

type_synonym ProgramBinary = "deUint32 list"

record ComputeShaderSpec =
  assembly :: string
  inputs :: "BufferSp list"
  outputs :: "BufferSp list"
  numWorkGroups :: IVec3

datatype TestStatus = TestStatus_pass string | TestStatus_fail string

datatype VkResult = VK_SUCCESS | VK_NOT_READY | VK_TIMEOUT | VK_ERROR nat

datatype Error =
    VkFailure VkResult        \<comment> \<open>the exception thrown by \<open>VK_CHECK\<close> and by the helpers\<close>
  | ProgramNotFound           \<comment> \<open>the binary collection has no program of that name\<close>
  | AssertionFailed           \<comment> \<open>\<open>DE_ASSERT\<close> in a build that checks assertions\<close>
  | UndefinedBehaviour        \<comment> \<open>a read or write outside an array or a mapped range\<close>

subsection \<open>Vulkan structures and the trace of driver calls\<close>

datatype VkBufferUsageFlagBits = VK_BUFFER_USAGE_STORAGE_BUFFER_BIT
datatype VkSharingMode = VK_SHARING_MODE_EXCLUSIVE
datatype VkDescriptorType = VK_DESCRIPTOR_TYPE_STORAGE_BUFFER
datatype VkShaderStage = VK_SHADER_STAGE_COMPUTE
datatype VkPipelineBindPoint = VK_PIPELINE_BIND_POINT_COMPUTE
datatype VkDescriptorPoolUsage = VK_DESCRIPTOR_POOL_USAGE_ONE_SHOT
datatype VkDescriptorSetUsage = VK_DESCRIPTOR_SET_USAGE_ONE_SHOT
datatype VkCmdBufferLevel = VK_CMD_BUFFER_LEVEL_PRIMARY
datatype VkCmdBufferOptimizeFlagBits = VK_CMD_BUFFER_OPTIMIZE_ONE_TIME_SUBMIT_BIT
datatype MemoryRequirement = HostVisible

record VkBufferCreateInfo =
  bci_size :: nat
  bci_usage :: VkBufferUsageFlagBits
  bci_flags :: deUint32
  bci_sharingMode :: VkSharingMode
  bci_queueFamilyCount :: deUint32

record VkMemoryRequirements =
  mr_size :: nat
  mr_alignment :: nat
  mr_memoryTypeBits :: deUint32

text \<open>
  \<open>vk::Allocation\<close>: the device memory, the offset inside it and the host pointer of
  the mapped range. The host pointer is the index of the mapped range in the store of
  host views (\<open>host\<close> below).
\<close>

record Allocation =
  getMemory :: handle
  getOffset :: nat
  getHostPtr :: nat

record VkDescriptorBufferInfo =
  dbi_buffer :: handle
  dbi_offset :: nat
  dbi_range :: nat

record VkDescriptorInfo =
  bufferView :: handle
  sampler :: handle
  imageView :: handle
  imageLayout :: nat
  bufferInfo :: VkDescriptorBufferInfo

record VkWriteDescriptorSet =
  destSet :: handle
  destBinding :: deUint32
  descriptorType :: VkDescriptorType
  descriptorInfo :: VkDescriptorInfo

datatype DeviceCall =
    CreateBuffer VkBufferCreateInfo handle
  | AllocatorAllocate VkMemoryRequirements MemoryRequirement Allocation
  | BindBufferMemory handle handle nat
  | FlushMappedMemoryRanges handle nat nat
  | CreateDescriptorSetLayout "(VkDescriptorType \<times> VkShaderStage) list" handle
  | CreatePipelineLayout "handle list" deUint32 handle
  | CreateDescriptorPool "(VkDescriptorType \<times> deUint32) list" VkDescriptorPoolUsage deUint32 handle
  | AllocDescriptorSet handle VkDescriptorSetUsage handle handle
  | UpdateDescriptorSets "VkWriteDescriptorSet list"
  | CreateShaderModule ProgramBinary deUint32 handle
  | CreateShader handle string deUint32 VkShaderStage handle
  | CreateComputePipeline handle VkShaderStage handle deUint32 handle handle handle
  | CreateCommandPool deUint32 deUint32 handle
  | CreateCommandBuffer handle VkCmdBufferLevel deUint32 handle
  | BeginCommandBuffer handle VkCmdBufferOptimizeFlagBits
  | CmdBindPipeline handle VkPipelineBindPoint handle
  | CmdBindDescriptorSets handle VkPipelineBindPoint handle deUint32 "handle list" "deUint32 list"
  | CmdDispatch handle deUint32 deUint32 deUint32
  | EndCommandBuffer handle
  | CreateFence deUint32 handle
  | QueueSubmit handle "handle list" handle
  | WaitForFences "handle list" deUint32 deUint64

text \<open>
  The state of one iteration: the driver calls made so far, and the mapped host views
  of the allocations made so far (a host pointer is an index into \<open>host\<close>).
\<close>

record DeviceState =
  calls :: "DeviceCall list"
  host :: "byte list list"

text \<open>
  What the file takes from its surroundings:
  \<^item> \<open>vkResult n\<close>: the result code of the driver or allocator call made when the
    trace holds \<open>n\<close> calls;
  \<^item> \<open>bufferMemoryRequirements\<close>: what the driver requires for a buffer of a given size;
  \<^item> \<open>allocPlace k\<close>: the device memory and the offset the allocator chooses for its
    \<open>k\<close>-th allocation; \<open>priorContent k i\<close>: byte \<open>i\<close> of that allocation's mapped
    range before the test writes to it;
  \<^item> \<open>binaryCollection\<close>: the programs built from the sources of \<open>initPrograms\<close>;
  \<^item> \<open>deviceWrites\<close>: byte \<open>i\<close> of mapped range \<open>k\<close> once the fence is signalled, given
    the calls submitted and the ranges' contents at submission;
  \<^item> \<open>DE_DEBUG\<close>: whether \<open>DE_ASSERT\<close> checks its condition (it expands to nothing
    otherwise).
\<close>

record Context =
  vkResult :: "nat \<Rightarrow> VkResult"
  bufferMemoryRequirements :: "nat \<Rightarrow> VkMemoryRequirements"
  allocPlace :: "nat \<Rightarrow> handle \<times> nat"
  priorContent :: "nat \<Rightarrow> nat \<Rightarrow> byte"
  binaryCollection :: "string \<Rightarrow> ProgramBinary option"
  universalQueue :: handle
  universalQueueFamilyIndex :: deUint32
  deviceWrites :: "DeviceCall list \<Rightarrow> byte list list \<Rightarrow> nat \<Rightarrow> nat \<Rightarrow> byte"
  DE_DEBUG :: bool

subsection \<open>Sequencing with exceptions\<close>

definition bindE :: "Error + 'a \<Rightarrow> ('a \<Rightarrow> Error + 'b) \<Rightarrow> Error + 'b" where
  "bindE m f = (case m of Inl e \<Rightarrow> Inl e | Inr v \<Rightarrow> f v)"

text \<open>\<open>VK_CHECK\<close> and the throwing helpers: anything but \<open>VK_SUCCESS\<close> is an exception.\<close>

definition vkCall :: "Context \<Rightarrow> DeviceCall \<Rightarrow> DeviceState \<Rightarrow> Error + DeviceState" where
  "vkCall ctx c s =
     (let r = vkResult ctx (length (calls s))
      in if r = VK_SUCCESS then Inr (s\<lparr>calls := calls s @ [c]\<rparr>) else Inl (VkFailure r))"

definition newHandle :: "DeviceState \<Rightarrow> handle" where
  "newHandle s = Suc (length (calls s))"

definition vkCreate :: "Context \<Rightarrow> (handle \<Rightarrow> DeviceCall) \<Rightarrow> DeviceState \<Rightarrow> Error + handle \<times> DeviceState" where
  "vkCreate ctx mk s =
     (let h = newHandle s
      in bindE (vkCall ctx (mk h) s) (\<lambda>s'. Inr (h, s')))"

text \<open>\<open>DE_ASSERT\<close>.\<close>

definition DE_ASSERT :: "Context \<Rightarrow> bool \<Rightarrow> Error + unit" where
  "DE_ASSERT ctx cond = (if DE_DEBUG ctx \<and> \<not> cond then Inl AssertionFailed else Inr ())"

subsection \<open>Host memory\<close>

text \<open>
  \<open>deMemcpy\<close>, \<open>deMemset\<close> and \<open>deMemCmp\<close> on a mapped range. C leaves an access past
  the end of the range or of the source undefined; the model makes it an outcome of
  its own.
\<close>

definition deMemcpy :: "byte list list \<Rightarrow> nat \<Rightarrow> byte list \<Rightarrow> nat \<Rightarrow> Error + byte list list" where
  "deMemcpy store hostPtr src numBytes =
     (if hostPtr < length store \<and> numBytes \<le> length (store ! hostPtr) \<and> numBytes \<le> length src
      then Inr (store[hostPtr := take numBytes src @ drop numBytes (store ! hostPtr)])
      else Inl UndefinedBehaviour)"

definition deMemset :: "byte list list \<Rightarrow> nat \<Rightarrow> byte \<Rightarrow> nat \<Rightarrow> Error + byte list list" where
  "deMemset store hostPtr v numBytes =
     (if hostPtr < length store \<and> numBytes \<le> length (store ! hostPtr)
      then Inr (store[hostPtr := replicate numBytes v @ drop numBytes (store ! hostPtr)])
      else Inl UndefinedBehaviour)"

text \<open>The result is whether \<open>deMemCmp\<close> returns non-zero.\<close>

definition deMemCmp :: "byte list \<Rightarrow> byte list list \<Rightarrow> nat \<Rightarrow> nat \<Rightarrow> Error + bool" where
  "deMemCmp a store hostPtr numBytes =
     (if hostPtr < length store \<and> numBytes \<le> length (store ! hostPtr) \<and> numBytes \<le> length a
      then Inr (take numBytes a \<noteq> take numBytes (store ! hostPtr))
      else Inl UndefinedBehaviour)"

definition flushMappedMemoryRange :: "Context \<Rightarrow> handle \<Rightarrow> nat \<Rightarrow> nat \<Rightarrow> DeviceState \<Rightarrow> Error + DeviceState" where
  "flushMappedMemoryRange ctx memory offset numBytes s =
     vkCall ctx (FlushMappedMemoryRanges memory offset numBytes) s"

text \<open>
  \<open>Allocator::allocate\<close> with \<open>MemoryRequirement::HostVisible\<close>: a new mapped range of
  the required size, holding whatever the memory held before.
\<close>

definition allocate :: "Context \<Rightarrow> VkMemoryRequirements \<Rightarrow> MemoryRequirement \<Rightarrow> DeviceState \<Rightarrow> Error + Allocation \<times> DeviceState" where
  "allocate ctx requirements req s =
     (let k = length (host s);
          alloc = \<lparr>getMemory = fst (allocPlace ctx k), getOffset = snd (allocPlace ctx k), getHostPtr = k\<rparr>
      in bindE (vkCall ctx (AllocatorAllocate requirements req alloc) s) (\<lambda>s'.
         Inr (alloc, s'\<lparr>host := host s' @ [map (priorContent ctx k) [0..<mr_size requirements]]\<rparr>)))"

subsection \<open>The helpers of the anonymous namespace\<close>

definition createBufferAndBindMemory :: "Context \<Rightarrow> nat \<Rightarrow> DeviceState \<Rightarrow> Error + (handle \<times> Allocation) \<times> DeviceState" where
  "createBufferAndBindMemory ctx numBytes s =
     (let bufferCreateInfo = \<lparr>bci_size = numBytes, bci_usage = VK_BUFFER_USAGE_STORAGE_BUFFER_BIT,
            bci_flags = 0, bci_sharingMode = VK_SHARING_MODE_EXCLUSIVE, bci_queueFamilyCount = 0\<rparr>
      in bindE (vkCreate ctx (CreateBuffer bufferCreateInfo) s) (\<lambda>(buffer, s1).
         let requirements = bufferMemoryRequirements ctx numBytes
         in bindE (allocate ctx requirements HostVisible s1) (\<lambda>(bufferMemory, s2).
            bindE (vkCall ctx (BindBufferMemory buffer (getMemory bufferMemory) (getOffset bufferMemory)) s2) (\<lambda>s3.
            Inr ((buffer, bufferMemory), s3)))))"

definition setMemory :: "Context \<Rightarrow> Allocation \<Rightarrow> nat \<Rightarrow> byte list \<Rightarrow> DeviceState \<Rightarrow> Error + DeviceState" where
  "setMemory ctx destAlloc numBytes src s =
     (let hostPtr = getHostPtr destAlloc
      in bindE (deMemcpy (host s) hostPtr src numBytes) (\<lambda>store.
         flushMappedMemoryRange ctx (getMemory destAlloc) (getOffset destAlloc) numBytes (s\<lparr>host := store\<rparr>)))"

definition clearMemory :: "Context \<Rightarrow> Allocation \<Rightarrow> nat \<Rightarrow> DeviceState \<Rightarrow> Error + DeviceState" where
  "clearMemory ctx destAlloc numBytes s =
     (let hostPtr = getHostPtr destAlloc
      in bindE (deMemset (host s) hostPtr 0 numBytes) (\<lambda>store.
         flushMappedMemoryRange ctx (getMemory destAlloc) (getOffset destAlloc) numBytes (s\<lparr>host := store\<rparr>)))"

definition createDescriptorInfo :: "handle \<Rightarrow> nat \<Rightarrow> nat \<Rightarrow> VkDescriptorInfo" where
  "createDescriptorInfo buffer offset rng =
     \<lparr>bufferView = 0, sampler = 0, imageView = 0, imageLayout = 0,
      bufferInfo = \<lparr>dbi_buffer = buffer, dbi_offset = offset, dbi_range = rng\<rparr>\<rparr>"

definition createDescriptorSetLayout :: "Context \<Rightarrow> nat \<Rightarrow> DeviceState \<Rightarrow> Error + handle \<times> DeviceState" where
  "createDescriptorSetLayout ctx numBindings s =
     (let builder = replicate numBindings (VK_DESCRIPTOR_TYPE_STORAGE_BUFFER, VK_SHADER_STAGE_COMPUTE)
      in vkCreate ctx (CreateDescriptorSetLayout builder) s)"

definition createPipelineLayout :: "Context \<Rightarrow> handle \<Rightarrow> DeviceState \<Rightarrow> Error + handle \<times> DeviceState" where
  "createPipelineLayout ctx descriptorSetLayout s =
     vkCreate ctx (CreatePipelineLayout [descriptorSetLayout] 0) s"

definition createDescriptorPool :: "Context \<Rightarrow> deUint32 \<Rightarrow> DeviceState \<Rightarrow> Error + handle \<times> DeviceState" where
  "createDescriptorPool ctx numDescriptors s =
     vkCreate ctx (CreateDescriptorPool [(VK_DESCRIPTOR_TYPE_STORAGE_BUFFER, numDescriptors)]
                     VK_DESCRIPTOR_POOL_USAGE_ONE_SHOT 1) s"

text \<open>
  The loop of \<open>createDescriptorSet\<close> counts in a \<open>deUint32\<close> and compares with a
  \<open>size_t\<close>: the counter wraps, so the loop is a partial function. Reading
  \<open>descriptorInfos\<close> past its end is undefined.
\<close>

partial_function (option) writeSingleLoop ::
  "handle \<Rightarrow> nat \<Rightarrow> VkDescriptorInfo list \<Rightarrow> deUint32 \<Rightarrow> VkWriteDescriptorSet list
   \<Rightarrow> (Error + VkWriteDescriptorSet list) option" where
  "writeSingleLoop descriptorSet numViews descriptorInfos descriptorNdx builder =
     (if unat descriptorNdx < numViews
      then if unat descriptorNdx < length descriptorInfos
           then writeSingleLoop descriptorSet numViews descriptorInfos (descriptorNdx + 1)
                  (builder @ [\<lparr>destSet = descriptorSet, destBinding = descriptorNdx,
                               descriptorType = VK_DESCRIPTOR_TYPE_STORAGE_BUFFER,
                               descriptorInfo = descriptorInfos ! unat descriptorNdx\<rparr>])
           else Some (Inl UndefinedBehaviour)
      else Some (Inr builder))"

declare writeSingleLoop.simps [code]

definition createDescriptorSet ::
  "Context \<Rightarrow> handle \<Rightarrow> handle \<Rightarrow> nat \<Rightarrow> VkDescriptorInfo list \<Rightarrow> DeviceState
   \<Rightarrow> (Error + handle \<times> DeviceState) option" where
  "createDescriptorSet ctx pool layout numViews descriptorInfos s =
     (case vkCreate ctx (AllocDescriptorSet pool VK_DESCRIPTOR_SET_USAGE_ONE_SHOT layout) s of
        Inl e \<Rightarrow> Some (Inl e)
      | Inr (descriptorSet, s1) \<Rightarrow>
          (case writeSingleLoop descriptorSet numViews descriptorInfos 0 [] of
             None \<Rightarrow> None
           | Some (Inl e) \<Rightarrow> Some (Inl e)
           | Some (Inr builder) \<Rightarrow>
               Some (bindE (vkCall ctx (UpdateDescriptorSets builder) s1) (\<lambda>s2. Inr (descriptorSet, s2)))))"

definition createShader :: "Context \<Rightarrow> handle \<Rightarrow> DeviceState \<Rightarrow> Error + handle \<times> DeviceState" where
  "createShader ctx module s = vkCreate ctx (CreateShader module ''main'' 0 VK_SHADER_STAGE_COMPUTE) s"

definition createComputePipeline :: "Context \<Rightarrow> handle \<Rightarrow> handle \<Rightarrow> DeviceState \<Rightarrow> Error + handle \<times> DeviceState" where
  "createComputePipeline ctx pipelineLayout shader s =
     vkCreate ctx (CreateComputePipeline 0 VK_SHADER_STAGE_COMPUTE shader 0 pipelineLayout 0) s"

definition createCommandPool :: "Context \<Rightarrow> deUint32 \<Rightarrow> DeviceState \<Rightarrow> Error + handle \<times> DeviceState" where
  "createCommandPool ctx queueFamilyIndex s = vkCreate ctx (CreateCommandPool queueFamilyIndex 0) s"

subsection \<open>The test case and its instance\<close>

record SpvAsmComputeShaderCase =
  m_name :: string
  m_description :: string
  m_caseSpec :: ComputeShaderSpec

record SpvAsmComputeShaderInstance =
  m_context :: Context
  m_shaderSpec :: ComputeShaderSpec

definition newSpvAsmComputeShaderCase :: "string \<Rightarrow> string \<Rightarrow> ComputeShaderSpec \<Rightarrow> SpvAsmComputeShaderCase" where
  "newSpvAsmComputeShaderCase name description spec =
     \<lparr>m_name = name, m_description = description, m_caseSpec = spec\<rparr>"

definition initPrograms :: "SpvAsmComputeShaderCase \<Rightarrow> (string \<times> string) list \<Rightarrow> (string \<times> string) list" where
  "initPrograms c spirvAsmSources = spirvAsmSources @ [(''compute'', assembly (m_caseSpec c))]"

definition newSpvAsmComputeShaderInstance :: "Context \<Rightarrow> ComputeShaderSpec \<Rightarrow> SpvAsmComputeShaderInstance" where
  "newSpvAsmComputeShaderInstance ctx spec = \<lparr>m_context = ctx, m_shaderSpec = spec\<rparr>"

definition createInstance :: "SpvAsmComputeShaderCase \<Rightarrow> Context \<Rightarrow> SpvAsmComputeShaderInstance" where
  "createInstance c ctx = newSpvAsmComputeShaderInstance ctx (m_caseSpec c)"

subsection \<open>\<open>SpvAsmComputeShaderInstance::iterate\<close>\<close>

text \<open>The five vectors \<open>iterate\<close> fills while it creates the buffers.\<close>

record IterateLocals =
  inputAllocs :: "Allocation list"
  outputAllocs :: "Allocation list"
  inputBuffers :: "handle list"
  outputBuffers :: "handle list"
  descriptorInfos :: "VkDescriptorInfo list"

text \<open>The loop over \<open>m_shaderSpec.inputs\<close>.\<close>

fun iterate_inputs :: "Context \<Rightarrow> BufferSp list \<Rightarrow> IterateLocals \<Rightarrow> DeviceState \<Rightarrow> Error + IterateLocals \<times> DeviceState" where
  "iterate_inputs ctx [] l s = Inr (l, s)"
| "iterate_inputs ctx (input # rest) l s =
     (case createBufferAndBindMemory ctx (getNumBytes input) s of
        Inl e \<Rightarrow> Inl e
      | Inr ((buffer, alloc), s1) \<Rightarrow>
          (case setMemory ctx alloc (getNumBytes input) (data input) s1 of
             Inl e \<Rightarrow> Inl e
           | Inr s2 \<Rightarrow>
               iterate_inputs ctx rest
                 (l\<lparr>descriptorInfos := descriptorInfos l @ [createDescriptorInfo buffer 0 (getNumBytes input)],
                    inputBuffers := inputBuffers l @ [buffer],
                    inputAllocs := inputAllocs l @ [alloc]\<rparr>) s2))"

text \<open>The loop over \<open>m_shaderSpec.outputs\<close>.\<close>

fun iterate_outputs :: "Context \<Rightarrow> BufferSp list \<Rightarrow> IterateLocals \<Rightarrow> DeviceState \<Rightarrow> Error + IterateLocals \<times> DeviceState" where
  "iterate_outputs ctx [] l s = Inr (l, s)"
| "iterate_outputs ctx (output # rest) l s =
     (case createBufferAndBindMemory ctx (getNumBytes output) s of
        Inl e \<Rightarrow> Inl e
      | Inr ((buffer, alloc), s1) \<Rightarrow>
          (case clearMemory ctx alloc (getNumBytes output) s1 of
             Inl e \<Rightarrow> Inl e
           | Inr s2 \<Rightarrow>
               iterate_outputs ctx rest
                 (l\<lparr>descriptorInfos := descriptorInfos l @ [createDescriptorInfo buffer 0 (getNumBytes output)],
                    outputBuffers := outputBuffers l @ [buffer],
                    outputAllocs := outputAllocs l @ [alloc]\<rparr>) s2))"

definition emptyLocals :: IterateLocals where
  "emptyLocals = \<lparr>inputAllocs = [], outputAllocs = [], inputBuffers = [], outputBuffers = [], descriptorInfos = []\<rparr>"

definition emptyState :: DeviceState where
  "emptyState = \<lparr>calls = [], host = []\<rparr>"

text \<open>From the assertion to the end of the two loops.\<close>

definition iterate_buffers :: "Context \<Rightarrow> ComputeShaderSpec \<Rightarrow> Error + IterateLocals \<times> DeviceState" where
  "iterate_buffers ctx spec =
     bindE (DE_ASSERT ctx (outputs spec \<noteq> [])) (\<lambda>_.
     bindE (iterate_inputs ctx (inputs spec) emptyLocals emptyState) (\<lambda>(l, s).
     iterate_outputs ctx (outputs spec) l s))"

text \<open>The handles made under "Create layouts and descriptor set".\<close>

record IterateLayouts =
  descriptorSetLayout :: handle
  pipelineLayout :: handle
  descriptorPool :: handle
  descriptorSet :: handle

definition iterate_layouts ::
  "Context \<Rightarrow> nat \<Rightarrow> VkDescriptorInfo list \<Rightarrow> DeviceState \<Rightarrow> (Error + IterateLayouts \<times> DeviceState) option" where
  "iterate_layouts ctx numBuffers infos s =
     (case createDescriptorSetLayout ctx numBuffers s of
        Inl e \<Rightarrow> Some (Inl e)
      | Inr (dsl, s1) \<Rightarrow>
     (case createPipelineLayout ctx dsl s1 of
        Inl e \<Rightarrow> Some (Inl e)
      | Inr (pl, s2) \<Rightarrow>
     (case createDescriptorPool ctx (of_nat numBuffers) s2 of
        Inl e \<Rightarrow> Some (Inl e)
      | Inr (pool, s3) \<Rightarrow>
     (case createDescriptorSet ctx pool dsl numBuffers infos s3 of
        None \<Rightarrow> None
      | Some (Inl e) \<Rightarrow> Some (Inl e)
      | Some (Inr (ds, s4)) \<Rightarrow>
          Some (Inr (\<lparr>descriptorSetLayout = dsl, pipelineLayout = pl,
                      descriptorPool = pool, descriptorSet = ds\<rparr>, s4))))))"

text \<open>"Create compute shader and pipeline".\<close>

definition getBinary :: "Context \<Rightarrow> string \<Rightarrow> Error + ProgramBinary" where
  "getBinary ctx name = (case binaryCollection ctx name of None \<Rightarrow> Inl ProgramNotFound | Some b \<Rightarrow> Inr b)"

definition iterate_pipeline :: "Context \<Rightarrow> handle \<Rightarrow> DeviceState \<Rightarrow> Error + handle \<times> DeviceState" where
  "iterate_pipeline ctx pl s =
     bindE (getBinary ctx ''compute'') (\<lambda>binary.
     bindE (vkCreate ctx (CreateShaderModule binary 0) s) (\<lambda>(module, s1).
     bindE (createShader ctx module s1) (\<lambda>(shader, s2).
     createComputePipeline ctx pl shader s2)))"

text \<open>"Create command buffer and record commands".\<close>

definition iterate_record ::
  "Context \<Rightarrow> IVec3 \<Rightarrow> handle \<Rightarrow> handle \<Rightarrow> handle \<Rightarrow> DeviceState \<Rightarrow> Error + handle \<times> DeviceState" where
  "iterate_record ctx groups computePipeline pl ds s =
     bindE (createCommandPool ctx (universalQueueFamilyIndex ctx) s) (\<lambda>(cmdPool, s1).
     bindE (vkCreate ctx (CreateCommandBuffer cmdPool VK_CMD_BUFFER_LEVEL_PRIMARY 0) s1) (\<lambda>(cmdBuffer, s2).
     bindE (vkCall ctx (BeginCommandBuffer cmdBuffer VK_CMD_BUFFER_OPTIMIZE_ONE_TIME_SUBMIT_BIT) s2) (\<lambda>s3.
     let s4 = s3\<lparr>calls := calls s3 @ [CmdBindPipeline cmdBuffer VK_PIPELINE_BIND_POINT_COMPUTE computePipeline]\<rparr>;
         s5 = s4\<lparr>calls := calls s4 @ [CmdBindDescriptorSets cmdBuffer VK_PIPELINE_BIND_POINT_COMPUTE pl 0 [ds] []]\<rparr>;
         s6 = s5\<lparr>calls := calls s5 @ [CmdDispatch cmdBuffer (vec_x groups) (vec_y groups) (vec_z groups)]\<rparr>
     in bindE (vkCall ctx (EndCommandBuffer cmdBuffer) s6) (\<lambda>s7. Inr (cmdBuffer, s7)))))"

text \<open>
  "Create fence and run". Once \<open>waitForFences\<close> has returned \<open>VK_SUCCESS\<close> the mapped
  ranges hold what the device wrote.
\<close>

definition infiniteTimeout :: deUint64 where
  "infiniteTimeout = NOT 0"

definition deviceCompleted :: "Context \<Rightarrow> DeviceState \<Rightarrow> DeviceState" where
  "deviceCompleted ctx s =
     s\<lparr>host := map (\<lambda>k. map (deviceWrites ctx (calls s) (host s) k) [0..<length (host s ! k)])
                    [0..<length (host s)]\<rparr>"

definition iterate_submit :: "Context \<Rightarrow> handle \<Rightarrow> DeviceState \<Rightarrow> Error + DeviceState" where
  "iterate_submit ctx cmdBuffer s =
     bindE (vkCreate ctx (CreateFence 0) s) (\<lambda>(cmdCompleteFence, s1).
     bindE (vkCall ctx (QueueSubmit (universalQueue ctx) [cmdBuffer] cmdCompleteFence) s1) (\<lambda>s2.
     bindE (vkCall ctx (WaitForFences [cmdCompleteFence] 0 infiniteTimeout) s2) (\<lambda>s3.
     Inr (deviceCompleted ctx s3))))"

text \<open>
  "Check output": the loop returns at the first output whose \<open>deMemCmp\<close> is non-zero.
  \<open>outputAllocs[outputNdx]\<close> past the end of the vector is undefined.
\<close>

fun iterate_check :: "byte list list \<Rightarrow> BufferSp list \<Rightarrow> Allocation list \<Rightarrow> Error + TestStatus" where
  "iterate_check store [] allocs = Inr (TestStatus_pass ''Ouput match with expected'')"
| "iterate_check store (expectedOutput # rest) [] = Inl UndefinedBehaviour"
| "iterate_check store (expectedOutput # rest) (alloc # allocs) =
     (case deMemCmp (data expectedOutput) store (getHostPtr alloc) (getNumBytes expectedOutput) of
        Inl e \<Rightarrow> Inl e
      | Inr differs \<Rightarrow>
          if differs then Inr (TestStatus_fail ''Output doesn't match with expected'')
          else iterate_check store rest allocs)"

text \<open>
  Everything before the check: the result is the locals and the state the check reads.
  \<open>None\<close> is the loop of \<open>createDescriptorSet\<close> not ending.
\<close>

definition iterate_run :: "Context \<Rightarrow> ComputeShaderSpec \<Rightarrow> (Error + IterateLocals \<times> DeviceState) option" where
  "iterate_run ctx spec =
     (case iterate_buffers ctx spec of
        Inl e \<Rightarrow> Some (Inl e)
      | Inr (l, s) \<Rightarrow>
     (case iterate_layouts ctx (length (inputs spec) + length (outputs spec)) (descriptorInfos l) s of
        None \<Rightarrow> None
      | Some (Inl e) \<Rightarrow> Some (Inl e)
      | Some (Inr (lay, s1)) \<Rightarrow>
          Some (bindE (iterate_pipeline ctx (pipelineLayout lay) s1) (\<lambda>(computePipeline, s2).
                bindE (iterate_record ctx (numWorkGroups spec) computePipeline (pipelineLayout lay) (descriptorSet lay) s2) (\<lambda>(cmdBuffer, s3).
                bindE (iterate_submit ctx cmdBuffer s3) (\<lambda>s4. Inr (l, s4)))))))"

definition iterate :: "SpvAsmComputeShaderInstance \<Rightarrow> (Error + TestStatus) option" where
  "iterate inst =
     (case iterate_run (m_context inst) (m_shaderSpec inst) of
        None \<Rightarrow> None
      | Some (Inl e) \<Rightarrow> Some (Inl e)
      | Some (Inr (l, s)) \<Rightarrow> Some (iterate_check (host s) (outputs (m_shaderSpec inst)) (outputAllocs l)))"

subsection \<open>Vocabulary of the properties\<close>

text \<open>
  The write \<open>createDescriptorSet\<close> issues for binding slot \<open>i\<close>: the \<open>i\<close>-th descriptor
  info at binding \<open>i\<close>, as a storage buffer.
\<close>

definition writeOf :: "handle \<Rightarrow> VkDescriptorInfo list \<Rightarrow> nat \<Rightarrow> VkWriteDescriptorSet" where
  "writeOf ds infos i =
     \<lparr>destSet = ds, destBinding = of_nat i, descriptorType = VK_DESCRIPTOR_TYPE_STORAGE_BUFFER,
      descriptorInfo = infos ! i\<rparr>"

text \<open>
  \<open>bufferReady s buffer alloc content\<close>: in state \<open>s\<close> the storage buffer \<open>buffer\<close> has
  been created with the size of \<open>content\<close> and bound to the memory of \<open>alloc\<close> at the
  allocation's offset, the mapped range of \<open>alloc\<close> starts with \<open>content\<close>, and a flush
  of that many bytes has been issued for it.
\<close>

definition bufferReady :: "DeviceState \<Rightarrow> handle \<Rightarrow> Allocation \<Rightarrow> byte list \<Rightarrow> bool" where
  "bufferReady s buffer alloc content =
     (CreateBuffer \<lparr>bci_size = length content, bci_usage = VK_BUFFER_USAGE_STORAGE_BUFFER_BIT,
                    bci_flags = 0, bci_sharingMode = VK_SHARING_MODE_EXCLUSIVE,
                    bci_queueFamilyCount = 0\<rparr> buffer \<in> set (calls s)
      \<and> BindBufferMemory buffer (getMemory alloc) (getOffset alloc) \<in> set (calls s)
      \<and> FlushMappedMemoryRanges (getMemory alloc) (getOffset alloc) (length content) \<in> set (calls s)
      \<and> getHostPtr alloc < length (host s)
      \<and> take (length content) (host s ! getHostPtr alloc) = content)"

text \<open>\<open>extends s s'\<close>: \<open>s'\<close> has made more calls and more allocations than \<open>s\<close>, and changed nothing.\<close>

definition extends :: "DeviceState \<Rightarrow> DeviceState \<Rightarrow> bool" where
  "extends s s' = (take (length (calls s)) (calls s') = calls s \<and> take (length (host s)) (host s') = host s)"

text \<open>The calls that record a command into a command buffer.\<close>

fun isCommand :: "DeviceCall \<Rightarrow> bool" where
  "isCommand (CmdBindPipeline cb bp p) = True"
| "isCommand (CmdBindDescriptorSets cb bp pl first sets dyn) = True"
| "isCommand (CmdDispatch cb gx gy gz) = True"
| "isCommand c = False"

text \<open>The calls the two loops of \<open>iterate\<close> make.\<close>

fun isBufferSetup :: "DeviceCall \<Rightarrow> bool" where
  "isBufferSetup (CreateBuffer info buffer) = True"
| "isBufferSetup (AllocatorAllocate requirements req alloc) = True"
| "isBufferSetup (BindBufferMemory buffer memory offset) = True"
| "isBufferSetup (FlushMappedMemoryRanges memory offset numBytes) = True"
| "isBufferSetup c = False"

text \<open>
  All descriptor writes of a trace, in the order in which they were issued, and the
  binding lists of all descriptor set layouts created.
\<close>

fun writesOf :: "DeviceCall \<Rightarrow> VkWriteDescriptorSet list" where
  "writesOf (UpdateDescriptorSets ws) = ws"
| "writesOf c = []"

definition descriptorWrites :: "DeviceCall list \<Rightarrow> VkWriteDescriptorSet list" where
  "descriptorWrites cs = concat (map writesOf cs)"

fun layoutsOf :: "DeviceCall \<Rightarrow> (VkDescriptorType \<times> VkShaderStage) list list" where
  "layoutsOf (CreateDescriptorSetLayout bindings layout) = [bindings]"
| "layoutsOf c = []"

definition createdLayouts :: "DeviceCall list \<Rightarrow> (VkDescriptorType \<times> VkShaderStage) list list" where
  "createdLayouts cs = concat (map layoutsOf cs)"

subsection \<open>Concrete runs\<close>

text \<open>
  A device on which every call succeeds, whose memory requirement is the buffer's size,
  whose allocator places every allocation at offset 0 of a memory of its own, whose fresh
  memory holds the byte 255, and whose shader copies the first buffer into the second.
\<close>

definition copyContext :: Context where
  "copyContext =
     \<lparr>vkResult = (\<lambda>n. VK_SUCCESS),
      bufferMemoryRequirements = (\<lambda>n. \<lparr>mr_size = n, mr_alignment = 1, mr_memoryTypeBits = 1\<rparr>),
      allocPlace = (\<lambda>k. (Suc k, 0)),
      priorContent = (\<lambda>k i. 255),
      binaryCollection = (\<lambda>name. if name = ''compute'' then Some [] else None),
      universalQueue = 1,
      universalQueueFamilyIndex = 0,
      deviceWrites = (\<lambda>cs store k i. if k = 1 then store ! 0 ! i else store ! k ! i),
      DE_DEBUG = True\<rparr>"

text \<open>One input \<open>[1,2,3,4]\<close>, one output expected to equal it, one work group.\<close>

definition copySpec :: ComputeShaderSpec where
  "copySpec = \<lparr>assembly = ''copy'', inputs = [[1, 2, 3, 4]], outputs = [[1, 2, 3, 4]],
               numWorkGroups = \<lparr>vec_x = 1, vec_y = 1, vec_z = 1\<rparr>\<rparr>"

text \<open>A state with one mapped range of four bytes, and the allocation that owns it.\<close>

definition oneRange :: DeviceState where
  "oneRange = \<lparr>calls = [], host = [[255, 255, 255, 255]]\<rparr>"

definition firstAlloc :: Allocation where
  "firstAlloc = \<lparr>getMemory = 1, getOffset = 0, getHostPtr = 0\<rparr>"

text \<open>What \<open>iterate\<close> has built for \<open>copySpec\<close> on \<open>copyContext\<close> when the two loops end.\<close>

definition copyLocals :: IterateLocals where
  "copyLocals =
     \<lparr>inputAllocs = [\<lparr>getMemory = 1, getOffset = 0, getHostPtr = 0\<rparr>],
      outputAllocs = [\<lparr>getMemory = 2, getOffset = 0, getHostPtr = 1\<rparr>],
      inputBuffers = [1], outputBuffers = [5],
      descriptorInfos = [createDescriptorInfo 1 0 4, createDescriptorInfo 5 0 4]\<rparr>"

definition copyBufferCalls :: "DeviceCall list" where
  "copyBufferCalls =
     [CreateBuffer \<lparr>bci_size = 4, bci_usage = VK_BUFFER_USAGE_STORAGE_BUFFER_BIT, bci_flags = 0,
                    bci_sharingMode = VK_SHARING_MODE_EXCLUSIVE, bci_queueFamilyCount = 0\<rparr> 1,
      AllocatorAllocate \<lparr>mr_size = 4, mr_alignment = 1, mr_memoryTypeBits = 1\<rparr> HostVisible
        \<lparr>getMemory = 1, getOffset = 0, getHostPtr = 0\<rparr>,
      BindBufferMemory 1 1 0,
      FlushMappedMemoryRanges 1 0 4,
      CreateBuffer \<lparr>bci_size = 4, bci_usage = VK_BUFFER_USAGE_STORAGE_BUFFER_BIT, bci_flags = 0,
                    bci_sharingMode = VK_SHARING_MODE_EXCLUSIVE, bci_queueFamilyCount = 0\<rparr> 5,
      AllocatorAllocate \<lparr>mr_size = 4, mr_alignment = 1, mr_memoryTypeBits = 1\<rparr> HostVisible
        \<lparr>getMemory = 2, getOffset = 0, getHostPtr = 1\<rparr>,
      BindBufferMemory 5 2 0,
      FlushMappedMemoryRanges 2 0 4]"

definition copyReady :: DeviceState where
  "copyReady = \<lparr>calls = copyBufferCalls, host = [[1, 2, 3, 4], [0, 0, 0, 0]]\<rparr>"

text \<open>The calls that follow, and the state the check reads.\<close>

definition copyRunCalls :: "DeviceCall list" where
  "copyRunCalls =
     [CreateDescriptorSetLayout
        [(VK_DESCRIPTOR_TYPE_STORAGE_BUFFER, VK_SHADER_STAGE_COMPUTE),
         (VK_DESCRIPTOR_TYPE_STORAGE_BUFFER, VK_SHADER_STAGE_COMPUTE)] 9,
      CreatePipelineLayout [9] 0 10,
      CreateDescriptorPool [(VK_DESCRIPTOR_TYPE_STORAGE_BUFFER, 2)] VK_DESCRIPTOR_POOL_USAGE_ONE_SHOT 1 11,
      AllocDescriptorSet 11 VK_DESCRIPTOR_SET_USAGE_ONE_SHOT 9 12,
      UpdateDescriptorSets
        [\<lparr>destSet = 12, destBinding = 0, descriptorType = VK_DESCRIPTOR_TYPE_STORAGE_BUFFER,
          descriptorInfo = createDescriptorInfo 1 0 4\<rparr>,
         \<lparr>destSet = 12, destBinding = 1, descriptorType = VK_DESCRIPTOR_TYPE_STORAGE_BUFFER,
          descriptorInfo = createDescriptorInfo 5 0 4\<rparr>],
      CreateShaderModule [] 0 14,
      CreateShader 14 ''main'' 0 VK_SHADER_STAGE_COMPUTE 15,
      CreateComputePipeline 0 VK_SHADER_STAGE_COMPUTE 15 0 10 0 16,
      CreateCommandPool 0 0 17,
      CreateCommandBuffer 17 VK_CMD_BUFFER_LEVEL_PRIMARY 0 18,
      BeginCommandBuffer 18 VK_CMD_BUFFER_OPTIMIZE_ONE_TIME_SUBMIT_BIT,
      CmdBindPipeline 18 VK_PIPELINE_BIND_POINT_COMPUTE 16,
      CmdBindDescriptorSets 18 VK_PIPELINE_BIND_POINT_COMPUTE 10 0 [12] [],
      CmdDispatch 18 1 1 1,
      EndCommandBuffer 18,
      CreateFence 0 24,
      QueueSubmit 1 [18] 24,
      WaitForFences [24] 0 infiniteTimeout]"

definition copyDone :: DeviceState where
  "copyDone = \<lparr>calls = copyBufferCalls @ copyRunCalls, host = [[1, 2, 3, 4], [1, 2, 3, 4]]\<rparr>"

text \<open>The same test expecting other bytes: the run is the same, the verdict is not.\<close>

definition mismatchSpec :: ComputeShaderSpec where
  "mismatchSpec = copySpec\<lparr>outputs := [[9, 9, 9, 9]]\<rparr>"

text \<open>The same device with an allocator that places every allocation at offset 16.\<close>

definition offsetContext :: Context where
  "offsetContext = copyContext\<lparr>allocPlace := (\<lambda>k. (Suc k, 16))\<rparr>"

text \<open>The instances of the two tests on the copying device.\<close>

definition copyInstance :: SpvAsmComputeShaderInstance where
  "copyInstance = createInstance (newSpvAsmComputeShaderCase ''copy'' ''copy one buffer'' copySpec) copyContext"

definition mismatchInstance :: SpvAsmComputeShaderInstance where
  "mismatchInstance = createInstance (newSpvAsmComputeShaderCase ''mismatch'' ''expect other bytes'' mismatchSpec) copyContext"

text \<open>A specification without outputs, and the copying device in a build without assertions.\<close>

definition noOutputSpec :: ComputeShaderSpec where
  "noOutputSpec = \<lparr>assembly = ''nothing'', inputs = [], outputs = [],
                   numWorkGroups = \<lparr>vec_x = 1, vec_y = 1, vec_z = 1\<rparr>\<rparr>"

definition releaseContext :: Context where
  "releaseContext = copyContext\<lparr>DE_DEBUG := False\<rparr>"

text \<open>
  Three outputs and no input on the copying device: after the run every output holds
  one zero byte, so the first output matches and the second and the third differ.
\<close>

definition threeSpec :: ComputeShaderSpec where
  "threeSpec = \<lparr>assembly = ''three'', inputs = [], outputs = [[0], [9], [7]],
                numWorkGroups = \<lparr>vec_x = 1, vec_y = 1, vec_z = 1\<rparr>\<rparr>"

definition threeInstance :: SpvAsmComputeShaderInstance where
  "threeInstance = createInstance (newSpvAsmComputeShaderCase ''three'' ''two outputs differ'' threeSpec) copyContext"

section \<open>Properties\<close>

subsection \<open>What a call that returns has done\<close>

lemma bindE_Inl [simp]: "bindE (Inl e) f = Inl e"
  by (simp add: bindE_def)

lemma bindE_Inr [simp]: "bindE (Inr v) f = f v"
  by (simp add: bindE_def)

lemma bindE_eq_Inr: "(bindE m f = Inr r) = (\<exists>v. m = Inr v \<and> f v = Inr r)"
  by (cases m) simp_all

lemma vkCall_eq_Inr:
  "(vkCall ctx c s = Inr s') =
     (vkResult ctx (length (calls s)) = VK_SUCCESS \<and> s' = s\<lparr>calls := calls s @ [c]\<rparr>)"
  by (auto simp: vkCall_def Let_def)

lemma vkCreate_eq_Inr:
  "(vkCreate ctx mk s = Inr (h, s')) =
     (vkResult ctx (length (calls s)) = VK_SUCCESS \<and> h = Suc (length (calls s))
      \<and> s' = s\<lparr>calls := calls s @ [mk h]\<rparr>)"
  by (auto simp: vkCreate_def newHandle_def Let_def bindE_eq_Inr vkCall_eq_Inr)

lemma allocate_eq_Inr:
  "(allocate ctx requirements req s = Inr (alloc, s')) =
     (vkResult ctx (length (calls s)) = VK_SUCCESS
      \<and> alloc = \<lparr>getMemory = fst (allocPlace ctx (length (host s))),
                  getOffset = snd (allocPlace ctx (length (host s))),
                  getHostPtr = length (host s)\<rparr>
      \<and> s' = \<lparr>calls = calls s @ [AllocatorAllocate requirements req alloc],
               host = host s @ [map (priorContent ctx (length (host s))) [0..<mr_size requirements]]\<rparr>)"
  by (auto simp: allocate_def Let_def bindE_eq_Inr vkCall_eq_Inr)

lemma createBufferAndBindMemory_eq_Inr:
  "(createBufferAndBindMemory ctx numBytes s = Inr ((buffer, alloc), s')) =
     (vkResult ctx (length (calls s)) = VK_SUCCESS
      \<and> vkResult ctx (Suc (length (calls s))) = VK_SUCCESS
      \<and> vkResult ctx (Suc (Suc (length (calls s)))) = VK_SUCCESS
      \<and> buffer = Suc (length (calls s))
      \<and> alloc = \<lparr>getMemory = fst (allocPlace ctx (length (host s))),
                  getOffset = snd (allocPlace ctx (length (host s))),
                  getHostPtr = length (host s)\<rparr>
      \<and> s' = \<lparr>calls = calls s @
                 [CreateBuffer \<lparr>bci_size = numBytes, bci_usage = VK_BUFFER_USAGE_STORAGE_BUFFER_BIT,
                    bci_flags = 0, bci_sharingMode = VK_SHARING_MODE_EXCLUSIVE,
                    bci_queueFamilyCount = 0\<rparr> buffer,
                  AllocatorAllocate (bufferMemoryRequirements ctx numBytes) HostVisible alloc,
                  BindBufferMemory buffer (getMemory alloc) (getOffset alloc)],
               host = host s @ [map (priorContent ctx (length (host s)))
                                  [0..<mr_size (bufferMemoryRequirements ctx numBytes)]]\<rparr>)"
  by (auto simp: createBufferAndBindMemory_def Let_def bindE_eq_Inr vkCall_eq_Inr vkCreate_eq_Inr
        allocate_eq_Inr)

lemma deMemcpy_eq_Inr:
  "(deMemcpy store p src n = Inr store') =
     (p < length store \<and> n \<le> length (store ! p) \<and> n \<le> length src
      \<and> store' = store[p := take n src @ drop n (store ! p)])"
  by (auto simp: deMemcpy_def)

lemma deMemset_eq_Inr:
  "(deMemset store p v n = Inr store') =
     (p < length store \<and> n \<le> length (store ! p)
      \<and> store' = store[p := replicate n v @ drop n (store ! p)])"
  by (auto simp: deMemset_def)

lemma setMemory_eq_Inr:
  "(setMemory ctx destAlloc numBytes src s = Inr s') =
     (getHostPtr destAlloc < length (host s)
      \<and> numBytes \<le> length (host s ! getHostPtr destAlloc) \<and> numBytes \<le> length src
      \<and> vkResult ctx (length (calls s)) = VK_SUCCESS
      \<and> s' = \<lparr>calls = calls s @ [FlushMappedMemoryRanges (getMemory destAlloc) (getOffset destAlloc) numBytes],
               host = (host s)[getHostPtr destAlloc :=
                         take numBytes src @ drop numBytes (host s ! getHostPtr destAlloc)]\<rparr>)"
  by (auto simp: setMemory_def flushMappedMemoryRange_def Let_def bindE_eq_Inr vkCall_eq_Inr deMemcpy_eq_Inr)

lemma clearMemory_eq_Inr:
  "(clearMemory ctx destAlloc numBytes s = Inr s') =
     (getHostPtr destAlloc < length (host s)
      \<and> numBytes \<le> length (host s ! getHostPtr destAlloc)
      \<and> vkResult ctx (length (calls s)) = VK_SUCCESS
      \<and> s' = \<lparr>calls = calls s @ [FlushMappedMemoryRanges (getMemory destAlloc) (getOffset destAlloc) numBytes],
               host = (host s)[getHostPtr destAlloc :=
                         replicate numBytes 0 @ drop numBytes (host s ! getHostPtr destAlloc)]\<rparr>)"
  by (auto simp: clearMemory_def flushMappedMemoryRange_def Let_def bindE_eq_Inr vkCall_eq_Inr deMemset_eq_Inr)

subsection \<open>The loop of \<open>createDescriptorSet\<close>\<close>

lemma unat_plus_one:
  assumes "unat (w :: deUint32) < n" "n < 2 ^ 32"
  shows "unat (w + 1) = Suc (unat w)"
proof -
  have "unat w + 1 < 2 ^ 32" using assms by simp
  then have "unat (w + 1) = unat w + unat (1 :: deUint32)"
    by (simp add: unat_add_lem [THEN iffD1])
  then show ?thesis by simp
qed

lemma writeSingleLoop_returns:
  "numViews < 2 ^ 32 \<Longrightarrow> numViews \<le> length infos \<Longrightarrow> unat ndx \<le> numViews \<Longrightarrow>
   writeSingleLoop ds numViews infos ndx acc =
     Some (Inr (acc @ map (writeOf ds infos) [unat ndx..<numViews]))"
proof (induction "numViews - unat ndx" arbitrary: ndx acc)
  case 0
  then show ?case by (subst writeSingleLoop.simps) simp
next
  case (Suc k)
  then have lt: "unat ndx < numViews" by simp
  with Suc.prems have step: "unat (ndx + 1) = Suc (unat ndx)"
    by (simp add: unat_plus_one)
  have "writeSingleLoop ds numViews infos (ndx + 1) (acc @ [writeOf ds infos (unat ndx)]) =
        Some (Inr ((acc @ [writeOf ds infos (unat ndx)]) @ map (writeOf ds infos) [unat (ndx + 1)..<numViews]))"
    using Suc.hyps(2) Suc.prems lt step by (intro Suc.hyps(1)) simp_all
  then show ?case
    using lt Suc.prems step
    by (subst writeSingleLoop.simps) (simp add: writeOf_def upt_conv_Cons)
qed

lemma writeSingleLoop_result_aux:
  assumes "writeSingleLoop ds numViews infos ndx acc = Some r"
  shows "\<forall>w. r = Inr w \<longrightarrow> unat ndx \<le> numViews \<longrightarrow>
           numViews < 2 ^ 32 \<and> w = acc @ map (writeOf ds infos) [unat ndx..<numViews]"
proof (rule writeSingleLoop.raw_induct
    [where P = "\<lambda>ds numViews infos ndx acc r. \<forall>w. r = Inr w \<longrightarrow> unat ndx \<le> numViews \<longrightarrow>
           numViews < 2 ^ 32 \<and> w = acc @ map (writeOf ds infos) [unat ndx..<numViews]", OF _ assms])
  fix loop :: "handle \<Rightarrow> nat \<Rightarrow> VkDescriptorInfo list \<Rightarrow> deUint32 \<Rightarrow> VkWriteDescriptorSet list
                \<Rightarrow> (Error + VkWriteDescriptorSet list) option"
    and ds numViews infos ndx acc r
  assume IH: "\<And>ds numViews infos ndx acc r. loop ds numViews infos ndx acc = Some r \<Longrightarrow>
           \<forall>w. r = Inr w \<longrightarrow> unat ndx \<le> numViews \<longrightarrow>
           numViews < 2 ^ 32 \<and> w = acc @ map (writeOf ds infos) [unat ndx..<numViews]"
  let ?acc = "acc @ [\<lparr>destSet = ds, destBinding = ndx,
                    descriptorType = VK_DESCRIPTOR_TYPE_STORAGE_BUFFER,
                    descriptorInfo = infos ! unat ndx\<rparr>]"
  assume body: "(if unat ndx < numViews
      then if unat ndx < length infos
           then loop ds numViews infos (ndx + 1) ?acc
           else Some (Inl UndefinedBehaviour)
      else Some (Inr acc)) = Some r"
  show "\<forall>w. r = Inr w \<longrightarrow> unat ndx \<le> numViews \<longrightarrow>
           numViews < 2 ^ 32 \<and> w = acc @ map (writeOf ds infos) [unat ndx..<numViews]"
  proof (intro allI impI)
    fix w assume r: "r = Inr w" and le: "unat ndx \<le> numViews"
    show "numViews < 2 ^ 32 \<and> w = acc @ map (writeOf ds infos) [unat ndx..<numViews]"
    proof (cases "unat ndx < numViews")
      case False
      with body r le have "unat ndx = numViews" "w = acc" by simp_all
      moreover have "unat ndx < 2 ^ 32" using unsigned_less [of ndx] by simp
      ultimately show ?thesis by simp
    next
      case True
      show ?thesis
      proof (cases "unat ndx < length infos")
        case False
        with True body r show ?thesis by simp
      next
        case inb: True
        from body True inb have call: "loop ds numViews infos (ndx + 1) ?acc = Some r" by simp
        have le': "unat (ndx + 1) \<le> numViews"
        proof (cases "1 + ndx = 0")
          case True then show ?thesis by (simp add: add.commute)
        next
          case False
          then have "unat (1 + ndx) = Suc (unat ndx)" by (rule unatSuc)
          with \<open>unat ndx < numViews\<close> show ?thesis by (simp add: add.commute)
        qed
        from IH [OF call] r le'
        have small: "numViews < 2 ^ 32" and w: "w = ?acc @ map (writeOf ds infos) [unat (ndx + 1)..<numViews]"
          by simp_all
        from True small have "unat (ndx + 1) = Suc (unat ndx)" by (simp add: unat_plus_one)
        with w True small show ?thesis by (simp add: writeOf_def upt_conv_Cons)
      qed
    qed
  qed
qed

lemma writeSingleLoop_result:
  "writeSingleLoop ds numViews infos 0 [] = Some (Inr w) \<Longrightarrow>
   numViews < 2 ^ 32 \<and> w = map (writeOf ds infos) [0..<numViews]"
  using writeSingleLoop_result_aux [of ds numViews infos 0 "[]" "Inr w"] by simp

subsection \<open>The straight-line sections of \<open>iterate\<close>\<close>

lemma createDescriptorSet_Inr:
  assumes "createDescriptorSet ctx pool layout numViews infos s = Some (Inr (ds, s'))"
  shows "numViews < 2 ^ 32 \<and> ds = Suc (length (calls s)) \<and>
         s' = s\<lparr>calls := calls s @ [AllocDescriptorSet pool VK_DESCRIPTOR_SET_USAGE_ONE_SHOT layout ds,
                                     UpdateDescriptorSets (map (writeOf ds infos) [0..<numViews])]\<rparr>"
  using assms
  by (auto simp: createDescriptorSet_def bindE_eq_Inr vkCall_eq_Inr vkCreate_eq_Inr
      split: sum.splits option.splits prod.splits dest!: writeSingleLoop_result)

lemma iterate_layouts_Inr:
  assumes "iterate_layouts ctx n infos s = Some (Inr (lay, s'))"
  shows "n < 2 ^ 32 \<and>
         s' = s\<lparr>calls := calls s @
               [CreateDescriptorSetLayout (replicate n (VK_DESCRIPTOR_TYPE_STORAGE_BUFFER, VK_SHADER_STAGE_COMPUTE))
                  (descriptorSetLayout lay),
                CreatePipelineLayout [descriptorSetLayout lay] 0 (pipelineLayout lay),
                CreateDescriptorPool [(VK_DESCRIPTOR_TYPE_STORAGE_BUFFER, of_nat n)]
                  VK_DESCRIPTOR_POOL_USAGE_ONE_SHOT 1 (descriptorPool lay),
                AllocDescriptorSet (descriptorPool lay) VK_DESCRIPTOR_SET_USAGE_ONE_SHOT
                  (descriptorSetLayout lay) (descriptorSet lay),
                UpdateDescriptorSets (map (writeOf (descriptorSet lay) infos) [0..<n])]\<rparr>"
  using assms
  by (auto simp: iterate_layouts_def createDescriptorSetLayout_def createPipelineLayout_def
        createDescriptorPool_def Let_def vkCreate_eq_Inr
      split: sum.splits option.splits prod.splits dest!: createDescriptorSet_Inr)

lemma iterate_pipeline_Inr:
  assumes "iterate_pipeline ctx pl s = Inr (p, s')"
  shows "\<exists>binary module shader.
           binaryCollection ctx ''compute'' = Some binary \<and>
           s' = s\<lparr>calls := calls s @
                  [CreateShaderModule binary 0 module,
                   CreateShader module ''main'' 0 VK_SHADER_STAGE_COMPUTE shader,
                   CreateComputePipeline 0 VK_SHADER_STAGE_COMPUTE shader 0 pl 0 p]\<rparr>"
  using assms
  by (auto simp: iterate_pipeline_def getBinary_def createShader_def createComputePipeline_def
        bindE_eq_Inr vkCreate_eq_Inr split: option.splits)

lemma iterate_record_Inr:
  assumes "iterate_record ctx groups p pl ds s = Inr (cb, s')"
  shows "\<exists>cmdPool.
           s' = s\<lparr>calls := calls s @
                  [CreateCommandPool (universalQueueFamilyIndex ctx) 0 cmdPool,
                   CreateCommandBuffer cmdPool VK_CMD_BUFFER_LEVEL_PRIMARY 0 cb,
                   BeginCommandBuffer cb VK_CMD_BUFFER_OPTIMIZE_ONE_TIME_SUBMIT_BIT,
                   CmdBindPipeline cb VK_PIPELINE_BIND_POINT_COMPUTE p,
                   CmdBindDescriptorSets cb VK_PIPELINE_BIND_POINT_COMPUTE pl 0 [ds] [],
                   CmdDispatch cb (vec_x groups) (vec_y groups) (vec_z groups),
                   EndCommandBuffer cb]\<rparr>"
  using assms
  by (auto simp: iterate_record_def createCommandPool_def Let_def
        bindE_eq_Inr vkCreate_eq_Inr vkCall_eq_Inr)

lemma iterate_submit_Inr:
  assumes "iterate_submit ctx cb s = Inr s'"
  shows "\<exists>fence.
           s' = deviceCompleted ctx (s\<lparr>calls := calls s @
                  [CreateFence 0 fence,
                   QueueSubmit (universalQueue ctx) [cb] fence,
                   WaitForFences [fence] 0 infiniteTimeout]\<rparr>)"
  using assms
  by (auto simp: iterate_submit_def bindE_eq_Inr vkCreate_eq_Inr vkCall_eq_Inr)

subsection \<open>The two loops that create the buffers\<close>

lemma extends_iff: "extends s s' = (\<exists>cs vs. calls s' = calls s @ cs \<and> host s' = host s @ vs)"
proof
  assume "extends s s'"
  then have "calls s' = calls s @ drop (length (calls s)) (calls s')"
        and "host s' = host s @ drop (length (host s)) (host s')"
    unfolding extends_def by (metis append_take_drop_id)+
  then show "\<exists>cs vs. calls s' = calls s @ cs \<and> host s' = host s @ vs" by blast
next
  assume "\<exists>cs vs. calls s' = calls s @ cs \<and> host s' = host s @ vs"
  then show "extends s s'" by (auto simp: extends_def)
qed

lemma extends_refl: "extends s s"
  by (simp add: extends_def)

lemma extends_trans: "extends s s' \<Longrightarrow> extends s' s'' \<Longrightarrow> extends s s''"
  by (auto simp: extends_iff)

lemma extends_calls: "extends s s' \<Longrightarrow> c \<in> set (calls s) \<Longrightarrow> c \<in> set (calls s')"
  by (auto simp: extends_iff)

lemma extends_host: "extends s s' \<Longrightarrow> k < length (host s) \<Longrightarrow> k < length (host s') \<and> host s' ! k = host s ! k"
  by (auto simp: extends_iff nth_append)

lemma extends_commands:
  "extends s s' \<Longrightarrow> \<exists>cs. filter isCommand (calls s') = filter isCommand (calls s) @ cs"
  by (auto simp: extends_iff)

lemma bufferReady_extends:
  assumes "bufferReady s b a c" "extends s s'"
  shows "bufferReady s' b a c"
proof -
  from assms(1) have k: "getHostPtr a < length (host s)" by (simp add: bufferReady_def)
  from extends_host [OF assms(2) k] assms(1) extends_calls [OF assms(2)]
  show ?thesis by (simp add: bufferReady_def)
qed

text \<open>One round of the loop over the inputs, and one of the loop over the outputs.\<close>

lemma input_round:
  assumes c: "createBufferAndBindMemory ctx (length d) s = Inr ((b, a), s1)"
      and m: "setMemory ctx a (length d) d s1 = Inr s2"
  shows "extends s s2 \<and> bufferReady s2 b a d \<and> filter isCommand (calls s2) = filter isCommand (calls s)"
proof -
  from c have ptr: "getHostPtr a = length (host s)"
    and h1: "host s1 = host s @ [map (priorContent ctx (length (host s)))
                                  [0..<mr_size (bufferMemoryRequirements ctx (length d))]]"
    and c1: "calls s1 = calls s @
                 [CreateBuffer \<lparr>bci_size = length d, bci_usage = VK_BUFFER_USAGE_STORAGE_BUFFER_BIT,
                    bci_flags = 0, bci_sharingMode = VK_SHARING_MODE_EXCLUSIVE,
                    bci_queueFamilyCount = 0\<rparr> b,
                  AllocatorAllocate (bufferMemoryRequirements ctx (length d)) HostVisible a,
                  BindBufferMemory b (getMemory a) (getOffset a)]"
    by (simp_all add: createBufferAndBindMemory_eq_Inr)
  from m have le: "length d \<le> length (host s1 ! getHostPtr a)"
    and h2: "host s2 = (host s1)[getHostPtr a := take (length d) d @ drop (length d) (host s1 ! getHostPtr a)]"
    and c2: "calls s2 = calls s1 @ [FlushMappedMemoryRanges (getMemory a) (getOffset a) (length d)]"
    by (simp_all add: setMemory_eq_Inr)
  from h1 h2 ptr have h2': "host s2 = host s @ [d @ drop (length d) (host s1 ! getHostPtr a)]"
    by simp
  have "extends s s2" using h2' c1 c2 by (simp add: extends_iff)
  moreover have "bufferReady s2 b a d" using h2' c1 c2 ptr by (simp add: bufferReady_def)
  moreover have "filter isCommand (calls s2) = filter isCommand (calls s)" using c1 c2 by simp
  ultimately show ?thesis by simp
qed

lemma output_round:
  assumes c: "createBufferAndBindMemory ctx (length d) s = Inr ((b, a), s1)"
      and m: "clearMemory ctx a (length d) s1 = Inr s2"
  shows "extends s s2 \<and> bufferReady s2 b a (replicate (length d) 0)
         \<and> filter isCommand (calls s2) = filter isCommand (calls s)"
proof -
  from c have ptr: "getHostPtr a = length (host s)"
    and h1: "host s1 = host s @ [map (priorContent ctx (length (host s)))
                                  [0..<mr_size (bufferMemoryRequirements ctx (length d))]]"
    and c1: "calls s1 = calls s @
                 [CreateBuffer \<lparr>bci_size = length d, bci_usage = VK_BUFFER_USAGE_STORAGE_BUFFER_BIT,
                    bci_flags = 0, bci_sharingMode = VK_SHARING_MODE_EXCLUSIVE,
                    bci_queueFamilyCount = 0\<rparr> b,
                  AllocatorAllocate (bufferMemoryRequirements ctx (length d)) HostVisible a,
                  BindBufferMemory b (getMemory a) (getOffset a)]"
    by (simp_all add: createBufferAndBindMemory_eq_Inr)
  from m have le: "length d \<le> length (host s1 ! getHostPtr a)"
    and h2: "host s2 = (host s1)[getHostPtr a := replicate (length d) 0 @ drop (length d) (host s1 ! getHostPtr a)]"
    and c2: "calls s2 = calls s1 @ [FlushMappedMemoryRanges (getMemory a) (getOffset a) (length d)]"
    by (simp_all add: clearMemory_eq_Inr)
  from h1 h2 ptr have h2': "host s2 = host s @ [replicate (length d) 0 @ drop (length d) (host s1 ! getHostPtr a)]"
    by simp
  have "extends s s2" using h2' c1 c2 by (simp add: extends_iff)
  moreover have "bufferReady s2 b a (replicate (length d) 0)" using h2' c1 c2 ptr by (simp add: bufferReady_def)
  moreover have "filter isCommand (calls s2) = filter isCommand (calls s)" using c1 c2 by simp
  ultimately show ?thesis by simp
qed

lemma iterate_inputs_Inr:
  "iterate_inputs ctx ins l s = Inr (l', s') \<Longrightarrow>
     extends s s' \<and> filter isCommand (calls s') = filter isCommand (calls s) \<and>
     outputAllocs l' = outputAllocs l \<and> outputBuffers l' = outputBuffers l \<and>
     (\<exists>bs as. length bs = length ins \<and> length as = length ins \<and>
        inputBuffers l' = inputBuffers l @ bs \<and> inputAllocs l' = inputAllocs l @ as \<and>
        descriptorInfos l' = descriptorInfos l @ map2 (\<lambda>b d. createDescriptorInfo b 0 (length d)) bs ins \<and>
        (\<forall>i<length ins. bufferReady s' (bs ! i) (as ! i) (ins ! i)))"
proof (induction ins arbitrary: l s)
  case Nil
  then show ?case by (simp add: extends_refl)
next
  case (Cons d rest)
  from Cons.prems obtain b a s1 s2 where
    c: "createBufferAndBindMemory ctx (length d) s = Inr ((b, a), s1)" and
    m: "setMemory ctx a (length d) d s1 = Inr s2" and
    r: "iterate_inputs ctx rest
          (l\<lparr>descriptorInfos := descriptorInfos l @ [createDescriptorInfo b 0 (length d)],
             inputBuffers := inputBuffers l @ [b], inputAllocs := inputAllocs l @ [a]\<rparr>) s2 = Inr (l', s')"
    by (auto simp: getNumBytes_def data_def split: sum.splits prod.splits)
  from input_round [OF c m] have e1: "extends s s2" and rdy: "bufferReady s2 b a d"
    and f1: "filter isCommand (calls s2) = filter isCommand (calls s)" by simp_all
  from Cons.IH [OF r] obtain bs as where
    e2: "extends s2 s'" and f2: "filter isCommand (calls s') = filter isCommand (calls s2)" and
    o: "outputAllocs l' = outputAllocs l" "outputBuffers l' = outputBuffers l" and
    len: "length bs = length rest" "length as = length rest" and
    ib: "inputBuffers l' = inputBuffers l @ b # bs" and ia: "inputAllocs l' = inputAllocs l @ a # as" and
    di: "descriptorInfos l' = descriptorInfos l @ createDescriptorInfo b 0 (length d) #
           map2 (\<lambda>b d. createDescriptorInfo b 0 (length d)) bs rest" and
    all: "\<forall>i<length rest. bufferReady s' (bs ! i) (as ! i) (rest ! i)"
    by auto
  have "\<forall>i<length (d # rest). bufferReady s' ((b # bs) ! i) ((a # as) ! i) ((d # rest) ! i)"
  proof (intro allI impI)
    fix i assume "i < length (d # rest)"
    then show "bufferReady s' ((b # bs) ! i) ((a # as) ! i) ((d # rest) ! i)"
      using all bufferReady_extends [OF rdy e2] by (cases i) simp_all
  qed
  moreover have "length (b # bs) = length (d # rest)" "length (a # as) = length (d # rest)"
    using len by simp_all
  moreover have "descriptorInfos l' = descriptorInfos l @
      map2 (\<lambda>b d. createDescriptorInfo b 0 (length d)) (b # bs) (d # rest)"
    using di by simp
  ultimately have "\<exists>bs as. length bs = length (d # rest) \<and> length as = length (d # rest) \<and>
        inputBuffers l' = inputBuffers l @ bs \<and> inputAllocs l' = inputAllocs l @ as \<and>
        descriptorInfos l' = descriptorInfos l @ map2 (\<lambda>b d. createDescriptorInfo b 0 (length d)) bs (d # rest) \<and>
        (\<forall>i<length (d # rest). bufferReady s' (bs ! i) (as ! i) ((d # rest) ! i))"
    using ib ia by blast
  with extends_trans [OF e1 e2] f1 f2 o show ?case by simp
qed

lemma iterate_outputs_Inr:
  "iterate_outputs ctx outs l s = Inr (l', s') \<Longrightarrow>
     extends s s' \<and> filter isCommand (calls s') = filter isCommand (calls s) \<and>
     inputAllocs l' = inputAllocs l \<and> inputBuffers l' = inputBuffers l \<and>
     (\<exists>bs as. length bs = length outs \<and> length as = length outs \<and>
        outputBuffers l' = outputBuffers l @ bs \<and> outputAllocs l' = outputAllocs l @ as \<and>
        descriptorInfos l' = descriptorInfos l @ map2 (\<lambda>b d. createDescriptorInfo b 0 (length d)) bs outs \<and>
        (\<forall>i<length outs. bufferReady s' (bs ! i) (as ! i) (replicate (length (outs ! i)) 0)))"
proof (induction outs arbitrary: l s)
  case Nil
  then show ?case by (simp add: extends_refl)
next
  case (Cons d rest)
  from Cons.prems obtain b a s1 s2 where
    c: "createBufferAndBindMemory ctx (length d) s = Inr ((b, a), s1)" and
    m: "clearMemory ctx a (length d) s1 = Inr s2" and
    r: "iterate_outputs ctx rest
          (l\<lparr>descriptorInfos := descriptorInfos l @ [createDescriptorInfo b 0 (length d)],
             outputBuffers := outputBuffers l @ [b], outputAllocs := outputAllocs l @ [a]\<rparr>) s2 = Inr (l', s')"
    by (auto simp: getNumBytes_def split: sum.splits prod.splits)
  from output_round [OF c m] have e1: "extends s s2" and rdy: "bufferReady s2 b a (replicate (length d) 0)"
    and f1: "filter isCommand (calls s2) = filter isCommand (calls s)" by simp_all
  from Cons.IH [OF r] obtain bs as where
    e2: "extends s2 s'" and f2: "filter isCommand (calls s') = filter isCommand (calls s2)" and
    o: "inputAllocs l' = inputAllocs l" "inputBuffers l' = inputBuffers l" and
    len: "length bs = length rest" "length as = length rest" and
    ib: "outputBuffers l' = outputBuffers l @ b # bs" and ia: "outputAllocs l' = outputAllocs l @ a # as" and
    di: "descriptorInfos l' = descriptorInfos l @ createDescriptorInfo b 0 (length d) #
           map2 (\<lambda>b d. createDescriptorInfo b 0 (length d)) bs rest" and
    all: "\<forall>i<length rest. bufferReady s' (bs ! i) (as ! i) (replicate (length (rest ! i)) 0)"
    by auto
  have "\<forall>i<length (d # rest). bufferReady s' ((b # bs) ! i) ((a # as) ! i) (replicate (length ((d # rest) ! i)) 0)"
  proof (intro allI impI)
    fix i assume "i < length (d # rest)"
    then show "bufferReady s' ((b # bs) ! i) ((a # as) ! i) (replicate (length ((d # rest) ! i)) 0)"
      using all bufferReady_extends [OF rdy e2] by (cases i) simp_all
  qed
  moreover have "length (b # bs) = length (d # rest)" "length (a # as) = length (d # rest)"
    using len by simp_all
  moreover have "descriptorInfos l' = descriptorInfos l @
      map2 (\<lambda>b d. createDescriptorInfo b 0 (length d)) (b # bs) (d # rest)"
    using di by simp
  ultimately have "\<exists>bs as. length bs = length (d # rest) \<and> length as = length (d # rest) \<and>
        outputBuffers l' = outputBuffers l @ bs \<and> outputAllocs l' = outputAllocs l @ as \<and>
        descriptorInfos l' = descriptorInfos l @ map2 (\<lambda>b d. createDescriptorInfo b 0 (length d)) bs (d # rest) \<and>
        (\<forall>i<length (d # rest). bufferReady s' (bs ! i) (as ! i) (replicate (length ((d # rest) ! i)) 0))"
    using ib ia by blast
  with extends_trans [OF e1 e2] f1 f2 o show ?case by simp
qed

lemma iterate_buffers_Inr:
  assumes "iterate_buffers ctx spec = Inr (l, s)"
  shows "(DE_DEBUG ctx \<longrightarrow> outputs spec \<noteq> []) \<and>
         length (inputBuffers l) = length (inputs spec) \<and>
         length (inputAllocs l) = length (inputs spec) \<and>
         length (outputBuffers l) = length (outputs spec) \<and>
         length (outputAllocs l) = length (outputs spec) \<and>
         descriptorInfos l = map2 (\<lambda>b d. createDescriptorInfo b 0 (length d))
                               (inputBuffers l @ outputBuffers l) (inputs spec @ outputs spec) \<and>
         (\<forall>i<length (inputs spec). bufferReady s (inputBuffers l ! i) (inputAllocs l ! i) (inputs spec ! i)) \<and>
         (\<forall>i<length (outputs spec). bufferReady s (outputBuffers l ! i) (outputAllocs l ! i)
                                       (replicate (length (outputs spec ! i)) 0)) \<and>
         filter isCommand (calls s) = []"
proof -
  from assms obtain l1 s1 where
    a: "DE_DEBUG ctx \<longrightarrow> outputs spec \<noteq> []" and
    i: "iterate_inputs ctx (inputs spec) emptyLocals emptyState = Inr (l1, s1)" and
    out: "iterate_outputs ctx (outputs spec) l1 s1 = Inr (l, s)"
    by (auto simp: iterate_buffers_def DE_ASSERT_def bindE_eq_Inr split: if_splits)
  from iterate_inputs_Inr [OF i] obtain bs as where
    f1: "filter isCommand (calls s1) = []" and
    o1: "outputAllocs l1 = []" "outputBuffers l1 = []" and
    len1: "length bs = length (inputs spec)" "length as = length (inputs spec)" and
    b1: "inputBuffers l1 = bs" "inputAllocs l1 = as" and
    d1: "descriptorInfos l1 = map2 (\<lambda>b d. createDescriptorInfo b 0 (length d)) bs (inputs spec)" and
    r1: "\<forall>i<length (inputs spec). bufferReady s1 (bs ! i) (as ! i) (inputs spec ! i)"
    by (auto simp: emptyLocals_def emptyState_def)
  from iterate_outputs_Inr [OF out] obtain bs' as' where
    e2: "extends s1 s" and
    f2: "filter isCommand (calls s) = filter isCommand (calls s1)" and
    o2: "inputAllocs l = inputAllocs l1" "inputBuffers l = inputBuffers l1" and
    len2: "length bs' = length (outputs spec)" "length as' = length (outputs spec)" and
    b2: "outputBuffers l = outputBuffers l1 @ bs'" "outputAllocs l = outputAllocs l1 @ as'" and
    d2: "descriptorInfos l = descriptorInfos l1 @ map2 (\<lambda>b d. createDescriptorInfo b 0 (length d)) bs' (outputs spec)" and
    r2: "\<forall>i<length (outputs spec). bufferReady s (bs' ! i) (as' ! i) (replicate (length (outputs spec ! i)) 0)"
    by auto
  have "\<forall>i<length (inputs spec). bufferReady s (inputBuffers l ! i) (inputAllocs l ! i) (inputs spec ! i)"
    using r1 e2 o2 b1 by (auto intro: bufferReady_extends)
  moreover have "descriptorInfos l = map2 (\<lambda>b d. createDescriptorInfo b 0 (length d))
                               (inputBuffers l @ outputBuffers l) (inputs spec @ outputs spec)"
    using d1 d2 o1 o2 b1 b2 len1 by simp
  ultimately show ?thesis
    using a f1 f2 o1 o2 len1 len2 b1 b2 r2 by simp
qed

lemma calls_deviceCompleted [simp]: "calls (deviceCompleted ctx s) = calls s"
  by (simp add: deviceCompleted_def)

lemma length_host_deviceCompleted [simp]: "length (host (deviceCompleted ctx s)) = length (host s)"
  by (simp add: deviceCompleted_def)

lemma length_view_deviceCompleted [simp]:
  "k < length (host s) \<Longrightarrow> length (host (deviceCompleted ctx s) ! k) = length (host s ! k)"
  by (simp add: deviceCompleted_def)

text \<open>A run that reaches the check: the buffers were set up, and then exactly these calls were made.\<close>

lemma iterate_run_Inr:
  assumes "iterate_run ctx spec = Some (Inr (l, s))"
  shows "\<exists>s0 (lay :: IterateLayouts) binary module shader computePipeline cmdPool cmdBuffer fence.
           iterate_buffers ctx spec = Inr (l, s0) \<and>
           length (inputs spec) + length (outputs spec) < 2 ^ 32 \<and>
           binaryCollection ctx ''compute'' = Some binary \<and>
           s = deviceCompleted ctx (s0\<lparr>calls := calls s0 @
               [CreateDescriptorSetLayout
                  (replicate (length (inputs spec) + length (outputs spec))
                     (VK_DESCRIPTOR_TYPE_STORAGE_BUFFER, VK_SHADER_STAGE_COMPUTE))
                  (descriptorSetLayout lay),
                CreatePipelineLayout [descriptorSetLayout lay] 0 (pipelineLayout lay),
                CreateDescriptorPool
                  [(VK_DESCRIPTOR_TYPE_STORAGE_BUFFER, of_nat (length (inputs spec) + length (outputs spec)))]
                  VK_DESCRIPTOR_POOL_USAGE_ONE_SHOT 1 (descriptorPool lay),
                AllocDescriptorSet (descriptorPool lay) VK_DESCRIPTOR_SET_USAGE_ONE_SHOT
                  (descriptorSetLayout lay) (descriptorSet lay),
                UpdateDescriptorSets (map (writeOf (descriptorSet lay) (descriptorInfos l))
                  [0..<length (inputs spec) + length (outputs spec)]),
                CreateShaderModule binary 0 module,
                CreateShader module ''main'' 0 VK_SHADER_STAGE_COMPUTE shader,
                CreateComputePipeline 0 VK_SHADER_STAGE_COMPUTE shader 0 (pipelineLayout lay) 0 computePipeline,
                CreateCommandPool (universalQueueFamilyIndex ctx) 0 cmdPool,
                CreateCommandBuffer cmdPool VK_CMD_BUFFER_LEVEL_PRIMARY 0 cmdBuffer,
                BeginCommandBuffer cmdBuffer VK_CMD_BUFFER_OPTIMIZE_ONE_TIME_SUBMIT_BIT,
                CmdBindPipeline cmdBuffer VK_PIPELINE_BIND_POINT_COMPUTE computePipeline,
                CmdBindDescriptorSets cmdBuffer VK_PIPELINE_BIND_POINT_COMPUTE (pipelineLayout lay) 0
                  [descriptorSet lay] [],
                CmdDispatch cmdBuffer (vec_x (numWorkGroups spec)) (vec_y (numWorkGroups spec))
                  (vec_z (numWorkGroups spec)),
                EndCommandBuffer cmdBuffer,
                CreateFence 0 fence,
                QueueSubmit (universalQueue ctx) [cmdBuffer] fence,
                WaitForFences [fence] 0 infiniteTimeout]\<rparr>)"
proof -
  from assms obtain l0 s0 lay s1 where
    b0: "iterate_buffers ctx spec = Inr (l0, s0)" and
    lay0: "iterate_layouts ctx (length (inputs spec) + length (outputs spec)) (descriptorInfos l0) s0
            = Some (Inr (lay, s1))" and
    rest: "bindE (iterate_pipeline ctx (pipelineLayout lay) s1) (\<lambda>(computePipeline, s2).
           bindE (iterate_record ctx (numWorkGroups spec) computePipeline (pipelineLayout lay) (descriptorSet lay) s2) (\<lambda>(cmdBuffer, s3).
           bindE (iterate_submit ctx cmdBuffer s3) (\<lambda>s4. Inr (l0, s4)))) = Inr (l, s)"
    by (auto simp: iterate_run_def split: sum.splits option.splits prod.splits)
  from rest obtain p s2 cb s3 where
    pipe: "iterate_pipeline ctx (pipelineLayout lay) s1 = Inr (p, s2)" and
    rec: "iterate_record ctx (numWorkGroups spec) p (pipelineLayout lay) (descriptorSet lay) s2 = Inr (cb, s3)" and
    sub: "iterate_submit ctx cb s3 = Inr s" and l0: "l0 = l"
    by (auto simp: bindE_eq_Inr)
  note b = b0 [unfolded l0] and lay = lay0 [unfolded l0]
  let ?n = "length (inputs spec) + length (outputs spec)"
  from iterate_layouts_Inr [OF lay] have small: "?n < 2 ^ 32" and
    s1: "s1 = s0\<lparr>calls := calls s0 @
               [CreateDescriptorSetLayout (replicate ?n (VK_DESCRIPTOR_TYPE_STORAGE_BUFFER, VK_SHADER_STAGE_COMPUTE))
                  (descriptorSetLayout lay),
                CreatePipelineLayout [descriptorSetLayout lay] 0 (pipelineLayout lay),
                CreateDescriptorPool [(VK_DESCRIPTOR_TYPE_STORAGE_BUFFER, of_nat ?n)]
                  VK_DESCRIPTOR_POOL_USAGE_ONE_SHOT 1 (descriptorPool lay),
                AllocDescriptorSet (descriptorPool lay) VK_DESCRIPTOR_SET_USAGE_ONE_SHOT
                  (descriptorSetLayout lay) (descriptorSet lay),
                UpdateDescriptorSets (map (writeOf (descriptorSet lay) (descriptorInfos l)) [0..<?n])]\<rparr>"
    by simp_all
  from iterate_pipeline_Inr [OF pipe] obtain binary module shader where
    bin: "binaryCollection ctx ''compute'' = Some binary" and
    s2: "s2 = s1\<lparr>calls := calls s1 @
                  [CreateShaderModule binary 0 module,
                   CreateShader module ''main'' 0 VK_SHADER_STAGE_COMPUTE shader,
                   CreateComputePipeline 0 VK_SHADER_STAGE_COMPUTE shader 0 (pipelineLayout lay) 0 p]\<rparr>"
    by blast
  from iterate_record_Inr [OF rec] obtain cmdPool where
    s3: "s3 = s2\<lparr>calls := calls s2 @
                  [CreateCommandPool (universalQueueFamilyIndex ctx) 0 cmdPool,
                   CreateCommandBuffer cmdPool VK_CMD_BUFFER_LEVEL_PRIMARY 0 cb,
                   BeginCommandBuffer cb VK_CMD_BUFFER_OPTIMIZE_ONE_TIME_SUBMIT_BIT,
                   CmdBindPipeline cb VK_PIPELINE_BIND_POINT_COMPUTE p,
                   CmdBindDescriptorSets cb VK_PIPELINE_BIND_POINT_COMPUTE (pipelineLayout lay) 0
                     [descriptorSet lay] [],
                   CmdDispatch cb (vec_x (numWorkGroups spec)) (vec_y (numWorkGroups spec))
                     (vec_z (numWorkGroups spec)),
                   EndCommandBuffer cb]\<rparr>"
    by blast
  from iterate_submit_Inr [OF sub] obtain fence where
    s: "s = deviceCompleted ctx (s3\<lparr>calls := calls s3 @
                  [CreateFence 0 fence,
                   QueueSubmit (universalQueue ctx) [cb] fence,
                   WaitForFences [fence] 0 infiniteTimeout]\<rparr>)"
    by blast
  have final: "s = deviceCompleted ctx (s0\<lparr>calls := calls s0 @
               [CreateDescriptorSetLayout (replicate ?n (VK_DESCRIPTOR_TYPE_STORAGE_BUFFER, VK_SHADER_STAGE_COMPUTE))
                  (descriptorSetLayout lay),
                CreatePipelineLayout [descriptorSetLayout lay] 0 (pipelineLayout lay),
                CreateDescriptorPool [(VK_DESCRIPTOR_TYPE_STORAGE_BUFFER, of_nat ?n)]
                  VK_DESCRIPTOR_POOL_USAGE_ONE_SHOT 1 (descriptorPool lay),
                AllocDescriptorSet (descriptorPool lay) VK_DESCRIPTOR_SET_USAGE_ONE_SHOT
                  (descriptorSetLayout lay) (descriptorSet lay),
                UpdateDescriptorSets (map (writeOf (descriptorSet lay) (descriptorInfos l)) [0..<?n]),
                CreateShaderModule binary 0 module,
                CreateShader module ''main'' 0 VK_SHADER_STAGE_COMPUTE shader,
                CreateComputePipeline 0 VK_SHADER_STAGE_COMPUTE shader 0 (pipelineLayout lay) 0 p,
                CreateCommandPool (universalQueueFamilyIndex ctx) 0 cmdPool,
                CreateCommandBuffer cmdPool VK_CMD_BUFFER_LEVEL_PRIMARY 0 cb,
                BeginCommandBuffer cb VK_CMD_BUFFER_OPTIMIZE_ONE_TIME_SUBMIT_BIT,
                CmdBindPipeline cb VK_PIPELINE_BIND_POINT_COMPUTE p,
                CmdBindDescriptorSets cb VK_PIPELINE_BIND_POINT_COMPUTE (pipelineLayout lay) 0
                  [descriptorSet lay] [],
                CmdDispatch cb (vec_x (numWorkGroups spec)) (vec_y (numWorkGroups spec))
                  (vec_z (numWorkGroups spec)),
                EndCommandBuffer cb,
                CreateFence 0 fence,
                QueueSubmit (universalQueue ctx) [cb] fence,
                WaitForFences [fence] 0 infiniteTimeout]\<rparr>)"
    unfolding s s3 s2 s1 by simp
  show ?thesis
    apply (rule exI [of _ s0])
    apply (rule exI [of _ lay])
    apply (rule exI [of _ binary])
    apply (rule exI [of _ module])
    apply (rule exI [of _ shader])
    apply (rule exI [of _ p])
    apply (rule exI [of _ cmdPool])
    apply (rule exI [of _ cb])
    apply (rule exI [of _ fence])
    apply (intro conjI b small bin final)
    done
qed

subsection \<open>The check of the outputs\<close>

lemma deMemCmp_mapped:
  "p < length store \<Longrightarrow> length e \<le> length (store ! p) \<Longrightarrow>
   deMemCmp (data e) store p (getNumBytes e) = Inr (take (length e) (store ! p) \<noteq> e)"
  by (auto simp: deMemCmp_def data_def getNumBytes_def)

lemma iterate_check_mapped:
  assumes "length allocs = length outs"
      and "\<forall>i<length outs. getHostPtr (allocs ! i) < length store
              \<and> length (outs ! i) \<le> length (store ! getHostPtr (allocs ! i))"
  shows "iterate_check store outs allocs =
           Inr (if \<forall>i<length outs. take (length (outs ! i)) (store ! getHostPtr (allocs ! i)) = outs ! i
                then TestStatus_pass ''Ouput match with expected''
                else TestStatus_fail ''Output doesn't match with expected'')"
  using assms
proof (induction outs arbitrary: allocs)
  case Nil
  then show ?case by simp
next
  case (Cons e rest)
  then obtain a arest where allocs: "allocs = a # arest" by (cases allocs) auto
  from Cons.prems allocs have len: "length arest = length rest" by simp
  from Cons.prems(2) allocs have
    m0: "getHostPtr a < length store" "length e \<le> length (store ! getHostPtr a)"
    by auto
  from Cons.prems(2) allocs have
    mrest: "\<forall>i<length rest. getHostPtr (arest ! i) < length store
              \<and> length (rest ! i) \<le> length (store ! getHostPtr (arest ! i))"
    by auto
  note IH = Cons.IH [OF len mrest]
  have split: "(\<forall>i<length (e # rest). take (length ((e # rest) ! i)) (store ! getHostPtr ((a # arest) ! i)) = (e # rest) ! i)
      = (take (length e) (store ! getHostPtr a) = e
         \<and> (\<forall>i<length rest. take (length (rest ! i)) (store ! getHostPtr (arest ! i)) = rest ! i))"
    by (auto simp: less_Suc_eq_0_disj)
  show ?case
    unfolding allocs split
    using IH by (simp add: deMemCmp_mapped [OF m0])
qed

lemma iterate_check_first_mismatch:
  assumes "length apre = length pre"
      and "\<forall>j<length pre. getHostPtr (apre ! j) < length store
              \<and> take (length (pre ! j)) (store ! getHostPtr (apre ! j)) = pre ! j"
      and "getHostPtr a < length store" "length e \<le> length (store ! getHostPtr a)"
      and "take (length e) (store ! getHostPtr a) \<noteq> e"
  shows "iterate_check store (pre @ e # rest) (apre @ a # arest) =
           Inr (TestStatus_fail ''Output doesn't match with expected'')"
  using assms(1,2)
proof (induction pre arbitrary: apre)
  case Nil
  then show ?case using assms(3-5) by (simp add: deMemCmp_mapped)
next
  case (Cons d ds)
  then obtain b bs where apre: "apre = b # bs" by (cases apre) auto
  from Cons.prems apre have len: "length bs = length ds" by simp
  from Cons.prems(2) apre have
    m0: "getHostPtr b < length store" "take (length d) (store ! getHostPtr b) = d"
    by auto
  then have le: "length d \<le> length (store ! getHostPtr b)"
    by (metis length_take min.absorb_iff2 min.cobounded1)
  from Cons.prems(2) apre have
    mrest: "\<forall>j<length ds. getHostPtr (bs ! j) < length store
              \<and> take (length (ds ! j)) (store ! getHostPtr (bs ! j)) = ds ! j"
    by auto
  from Cons.IH [OF len mrest] m0 le show ?case
    unfolding apre by (simp add: deMemCmp_mapped)
qed

text \<open>In a run that reaches the check every output has its allocation, mapped and large enough.\<close>

lemma iterate_run_outputs_mapped:
  assumes "iterate_run ctx spec = Some (Inr (l, s))"
  shows "length (outputAllocs l) = length (outputs spec) \<and>
         (\<forall>i<length (outputs spec). getHostPtr (outputAllocs l ! i) < length (host s)
              \<and> length (outputs spec ! i) \<le> length (host s ! getHostPtr (outputAllocs l ! i)))"
proof -
  from iterate_run_Inr [OF assms] obtain s0 rest where
    b: "iterate_buffers ctx spec = Inr (l, s0)" and
    s: "s = deviceCompleted ctx (s0\<lparr>calls := calls s0 @ rest\<rparr>)"
    by blast
  from iterate_buffers_Inr [OF b] have
    len: "length (outputAllocs l) = length (outputs spec)" and
    rdy: "\<forall>i<length (outputs spec). bufferReady s0 (outputBuffers l ! i) (outputAllocs l ! i)
                                       (replicate (length (outputs spec ! i)) 0)"
    by simp_all
  have "getHostPtr (outputAllocs l ! i) < length (host s)
              \<and> length (outputs spec ! i) \<le> length (host s ! getHostPtr (outputAllocs l ! i))"
    if i: "i < length (outputs spec)" for i
  proof -
    let ?p = "getHostPtr (outputAllocs l ! i)" and ?n = "length (outputs spec ! i)"
    from rdy i have p: "?p < length (host s0)" and
      t: "take ?n (host s0 ! ?p) = replicate ?n 0"
      by (simp_all add: bufferReady_def)
    from t have "length (take ?n (host s0 ! ?p)) = ?n" by simp
    then have "?n \<le> length (host s0 ! ?p)" by simp
    with p show ?thesis unfolding s by simp
  qed
  with len show ?thesis by blast
qed

lemma iterate_of_run:
  assumes "iterate_run (m_context inst) (m_shaderSpec inst) = Some (Inr (l, s))"
  shows "iterate inst =
           Some (Inr (if \<forall>i<length (outputs (m_shaderSpec inst)).
                           take (length (outputs (m_shaderSpec inst) ! i))
                             (host s ! getHostPtr (outputAllocs l ! i)) = outputs (m_shaderSpec inst) ! i
                      then TestStatus_pass ''Ouput match with expected''
                      else TestStatus_fail ''Output doesn't match with expected''))"
proof -
  from iterate_run_outputs_mapped [OF assms] have
    "iterate_check (host s) (outputs (m_shaderSpec inst)) (outputAllocs l) =
       Inr (if \<forall>i<length (outputs (m_shaderSpec inst)).
                 take (length (outputs (m_shaderSpec inst) ! i))
                   (host s ! getHostPtr (outputAllocs l ! i)) = outputs (m_shaderSpec inst) ! i
            then TestStatus_pass ''Ouput match with expected''
            else TestStatus_fail ''Output doesn't match with expected'')"
    by (intro iterate_check_mapped) simp_all
  with assms show ?thesis by (simp add: iterate_def)
qed

lemma iterate_verdict_run:
  assumes "iterate inst = Some (Inr v)"
  shows "\<exists>l s. iterate_run (m_context inst) (m_shaderSpec inst) = Some (Inr (l, s))"
  using assms by (auto simp: iterate_def split: option.splits sum.splits)

subsection \<open>The calls of the loops are buffer set-up calls\<close>

lemma bufferSetup_none:
  assumes "list_all isBufferSetup cs"
  shows "filter isCommand cs = [] \<and> descriptorWrites cs = [] \<and> createdLayouts cs = []"
  using assms
proof (induction cs)
  case Nil
  then show ?case by (simp add: descriptorWrites_def createdLayouts_def)
next
  case (Cons c cs)
  then show ?case by (cases c) (simp_all add: descriptorWrites_def createdLayouts_def)
qed

lemma iterate_inputs_calls:
  "iterate_inputs ctx ins l s = Inr (l', s') \<Longrightarrow>
     \<exists>cs. calls s' = calls s @ cs \<and> list_all isBufferSetup cs"
proof (induction ins arbitrary: l s)
  case Nil
  then show ?case by simp
next
  case (Cons d rest)
  from Cons.prems obtain b a s1 s2 l2 where
    c: "createBufferAndBindMemory ctx (length d) s = Inr ((b, a), s1)" and
    m: "setMemory ctx a (length d) d s1 = Inr s2" and
    r: "iterate_inputs ctx rest l2 s2 = Inr (l', s')"
    by (auto simp: getNumBytes_def data_def split: sum.splits prod.splits)
  from c m have "\<exists>cs. calls s2 = calls s @ cs \<and> list_all isBufferSetup cs"
    by (simp add: createBufferAndBindMemory_eq_Inr setMemory_eq_Inr)
  with Cons.IH [OF r] show ?case by auto
qed

lemma iterate_outputs_calls:
  "iterate_outputs ctx outs l s = Inr (l', s') \<Longrightarrow>
     \<exists>cs. calls s' = calls s @ cs \<and> list_all isBufferSetup cs"
proof (induction outs arbitrary: l s)
  case Nil
  then show ?case by simp
next
  case (Cons d rest)
  from Cons.prems obtain b a s1 s2 l2 where
    c: "createBufferAndBindMemory ctx (length d) s = Inr ((b, a), s1)" and
    m: "clearMemory ctx a (length d) s1 = Inr s2" and
    r: "iterate_outputs ctx rest l2 s2 = Inr (l', s')"
    by (auto simp: getNumBytes_def split: sum.splits prod.splits)
  from c m have "\<exists>cs. calls s2 = calls s @ cs \<and> list_all isBufferSetup cs"
    by (simp add: createBufferAndBindMemory_eq_Inr clearMemory_eq_Inr)
  with Cons.IH [OF r] show ?case by auto
qed

lemma iterate_buffers_calls:
  assumes "iterate_buffers ctx spec = Inr (l, s)"
  shows "list_all isBufferSetup (calls s)"
proof -
  from assms obtain l1 s1 where
    i: "iterate_inputs ctx (inputs spec) emptyLocals emptyState = Inr (l1, s1)" and
    out: "iterate_outputs ctx (outputs spec) l1 s1 = Inr (l, s)"
    by (auto simp: iterate_buffers_def DE_ASSERT_def bindE_eq_Inr split: if_splits)
  from iterate_inputs_calls [OF i] iterate_outputs_calls [OF out]
  show ?thesis by (auto simp: emptyState_def)
qed

lemma descriptorWrites_append [simp]:
  "descriptorWrites (cs @ ds) = descriptorWrites cs @ descriptorWrites ds"
  by (simp add: descriptorWrites_def)

lemma createdLayouts_append [simp]:
  "createdLayouts (cs @ ds) = createdLayouts cs @ createdLayouts ds"
  by (simp add: createdLayouts_def)

text \<open>The calls of a run that reaches the check, split at the end of the two loops.\<close>

lemma iterate_run_calls:
  assumes "iterate_run ctx spec = Some (Inr (l, s))"
  shows "\<exists>s0 dsl pl pool ds binary module shader computePipeline cmdPool cmdBuffer fence.
           iterate_buffers ctx spec = Inr (l, s0) \<and>
           list_all isBufferSetup (calls s0) \<and>
           length (inputs spec) + length (outputs spec) < 2 ^ 32 \<and>
           calls s = calls s0 @
               [CreateDescriptorSetLayout
                  (replicate (length (inputs spec) + length (outputs spec))
                     (VK_DESCRIPTOR_TYPE_STORAGE_BUFFER, VK_SHADER_STAGE_COMPUTE)) dsl,
                CreatePipelineLayout [dsl] 0 pl,
                CreateDescriptorPool
                  [(VK_DESCRIPTOR_TYPE_STORAGE_BUFFER, of_nat (length (inputs spec) + length (outputs spec)))]
                  VK_DESCRIPTOR_POOL_USAGE_ONE_SHOT 1 pool,
                AllocDescriptorSet pool VK_DESCRIPTOR_SET_USAGE_ONE_SHOT dsl ds,
                UpdateDescriptorSets (map (writeOf ds (descriptorInfos l))
                  [0..<length (inputs spec) + length (outputs spec)]),
                CreateShaderModule binary 0 module,
                CreateShader module ''main'' 0 VK_SHADER_STAGE_COMPUTE shader,
                CreateComputePipeline 0 VK_SHADER_STAGE_COMPUTE shader 0 pl 0 computePipeline,
                CreateCommandPool (universalQueueFamilyIndex ctx) 0 cmdPool,
                CreateCommandBuffer cmdPool VK_CMD_BUFFER_LEVEL_PRIMARY 0 cmdBuffer,
                BeginCommandBuffer cmdBuffer VK_CMD_BUFFER_OPTIMIZE_ONE_TIME_SUBMIT_BIT,
                CmdBindPipeline cmdBuffer VK_PIPELINE_BIND_POINT_COMPUTE computePipeline,
                CmdBindDescriptorSets cmdBuffer VK_PIPELINE_BIND_POINT_COMPUTE pl 0 [ds] [],
                CmdDispatch cmdBuffer (vec_x (numWorkGroups spec)) (vec_y (numWorkGroups spec))
                  (vec_z (numWorkGroups spec)),
                EndCommandBuffer cmdBuffer,
                CreateFence 0 fence,
                QueueSubmit (universalQueue ctx) [cmdBuffer] fence,
                WaitForFences [fence] 0 infiniteTimeout]"
proof -
  from iterate_run_Inr [OF assms] obtain s0 and lay :: IterateLayouts
    and binary module shader computePipeline cmdPool cmdBuffer fence where
    b: "iterate_buffers ctx spec = Inr (l, s0)" and
    small: "length (inputs spec) + length (outputs spec) < 2 ^ 32" and
    s: "s = deviceCompleted ctx (s0\<lparr>calls := calls s0 @
               [CreateDescriptorSetLayout
                  (replicate (length (inputs spec) + length (outputs spec))
                     (VK_DESCRIPTOR_TYPE_STORAGE_BUFFER, VK_SHADER_STAGE_COMPUTE))
                  (descriptorSetLayout lay),
                CreatePipelineLayout [descriptorSetLayout lay] 0 (pipelineLayout lay),
                CreateDescriptorPool
                  [(VK_DESCRIPTOR_TYPE_STORAGE_BUFFER, of_nat (length (inputs spec) + length (outputs spec)))]
                  VK_DESCRIPTOR_POOL_USAGE_ONE_SHOT 1 (descriptorPool lay),
                AllocDescriptorSet (descriptorPool lay) VK_DESCRIPTOR_SET_USAGE_ONE_SHOT
                  (descriptorSetLayout lay) (descriptorSet lay),
                UpdateDescriptorSets (map (writeOf (descriptorSet lay) (descriptorInfos l))
                  [0..<length (inputs spec) + length (outputs spec)]),
                CreateShaderModule binary 0 module,
                CreateShader module ''main'' 0 VK_SHADER_STAGE_COMPUTE shader,
                CreateComputePipeline 0 VK_SHADER_STAGE_COMPUTE shader 0 (pipelineLayout lay) 0 computePipeline,
                CreateCommandPool (universalQueueFamilyIndex ctx) 0 cmdPool,
                CreateCommandBuffer cmdPool VK_CMD_BUFFER_LEVEL_PRIMARY 0 cmdBuffer,
                BeginCommandBuffer cmdBuffer VK_CMD_BUFFER_OPTIMIZE_ONE_TIME_SUBMIT_BIT,
                CmdBindPipeline cmdBuffer VK_PIPELINE_BIND_POINT_COMPUTE computePipeline,
                CmdBindDescriptorSets cmdBuffer VK_PIPELINE_BIND_POINT_COMPUTE (pipelineLayout lay) 0
                  [descriptorSet lay] [],
                CmdDispatch cmdBuffer (vec_x (numWorkGroups spec)) (vec_y (numWorkGroups spec))
                  (vec_z (numWorkGroups spec)),
                EndCommandBuffer cmdBuffer,
                CreateFence 0 fence,
                QueueSubmit (universalQueue ctx) [cmdBuffer] fence,
                WaitForFences [fence] 0 infiniteTimeout]\<rparr>)"
    by blast
  note only = iterate_buffers_calls [OF b]
  show ?thesis
    apply (rule exI [of _ s0])
    apply (rule exI [of _ "descriptorSetLayout lay"], rule exI [of _ "pipelineLayout lay"])
    apply (rule exI [of _ "descriptorPool lay"], rule exI [of _ "descriptorSet lay"])
    apply (rule exI [of _ binary], rule exI [of _ module], rule exI [of _ shader])
    apply (rule exI [of _ computePipeline], rule exI [of _ cmdPool], rule exI [of _ cmdBuffer])
    apply (rule exI [of _ fence])
    apply (intro conjI)
       apply (rule b)
      apply (rule only)
     apply (rule small)
    apply (simp add: s)
    done
qed

subsection \<open>A run on a device that does not fail reaches the check\<close>

lemma buffer_round_returns:
  assumes ok: "\<forall>n. vkResult ctx n = VK_SUCCESS"
      and req: "\<forall>n. n \<le> mr_size (bufferMemoryRequirements ctx n)"
  shows "\<exists>b a s1 s2 s3. createBufferAndBindMemory ctx (length d) s = Inr ((b, a), s1)
           \<and> setMemory ctx a (length d) d s1 = Inr s2
           \<and> clearMemory ctx a (length d) s1 = Inr s3"
  using ok req by (simp add: createBufferAndBindMemory_eq_Inr setMemory_eq_Inr clearMemory_eq_Inr)

lemma iterate_inputs_returns:
  assumes ok: "\<forall>n. vkResult ctx n = VK_SUCCESS"
      and req: "\<forall>n. n \<le> mr_size (bufferMemoryRequirements ctx n)"
  shows "\<exists>l' s'. iterate_inputs ctx ins l s = Inr (l', s')"
proof (induction ins arbitrary: l s)
  case Nil
  show ?case by simp
next
  case (Cons d rest)
  from buffer_round_returns [OF ok req, of d s] obtain b a s1 s2 where
    "createBufferAndBindMemory ctx (length d) s = Inr ((b, a), s1)"
    "setMemory ctx a (length d) d s1 = Inr s2"
    by blast
  with Cons.IH show ?case by (simp add: getNumBytes_def data_def)
qed

lemma iterate_outputs_returns:
  assumes ok: "\<forall>n. vkResult ctx n = VK_SUCCESS"
      and req: "\<forall>n. n \<le> mr_size (bufferMemoryRequirements ctx n)"
  shows "\<exists>l' s'. iterate_outputs ctx outs l s = Inr (l', s')"
proof (induction outs arbitrary: l s)
  case Nil
  show ?case by simp
next
  case (Cons d rest)
  from buffer_round_returns [OF ok req, of d s] obtain b a s1 s3 where
    "createBufferAndBindMemory ctx (length d) s = Inr ((b, a), s1)"
    "clearMemory ctx a (length d) s1 = Inr s3"
    by blast
  with Cons.IH show ?case by (simp add: getNumBytes_def)
qed

lemma iterate_run_returns:
  assumes ok: "\<forall>n. vkResult ctx n = VK_SUCCESS"
      and req: "\<forall>n. n \<le> mr_size (bufferMemoryRequirements ctx n)"
      and bin: "binaryCollection ctx ''compute'' = Some binary"
      and small: "length (inputs spec) + length (outputs spec) < 2 ^ 32"
      and asserted: "DE_DEBUG ctx \<longrightarrow> outputs spec \<noteq> []"
  shows "\<exists>l s. iterate_run ctx spec = Some (Inr (l, s))"
proof -
  from iterate_inputs_returns [OF ok req] obtain l1 s1 where
    i: "iterate_inputs ctx (inputs spec) emptyLocals emptyState = Inr (l1, s1)" by blast
  from iterate_outputs_returns [OF ok req] obtain l s0 where
    out: "iterate_outputs ctx (outputs spec) l1 s1 = Inr (l, s0)" by blast
  from i out asserted have b: "iterate_buffers ctx spec = Inr (l, s0)"
    by (simp add: iterate_buffers_def DE_ASSERT_def)
  from iterate_buffers_Inr [OF b] have
    "length (descriptorInfos l) = length (inputs spec) + length (outputs spec)"
    by simp
  with small have loop: "writeSingleLoop ds (length (inputs spec) + length (outputs spec)) (descriptorInfos l) 0 [] =
      Some (Inr (map (writeOf ds (descriptorInfos l)) [0..<length (inputs spec) + length (outputs spec)]))" for ds
    using writeSingleLoop_returns [of "length (inputs spec) + length (outputs spec)" "descriptorInfos l" 0 ds "[]"]
    by simp
  show ?thesis
    using ok bin
    by (simp add: iterate_run_def b iterate_layouts_def iterate_pipeline_def iterate_record_def
        iterate_submit_def createDescriptorSetLayout_def createPipelineLayout_def createDescriptorPool_def
        createDescriptorSet_def createShader_def createComputePipeline_def createCommandPool_def
        getBinary_def vkCreate_def vkCall_def Let_def loop)
qed

text \<open>
  The timeout of the wait is the all-ones 64-bit value, and a result of the wait other
  than \<open>VK_SUCCESS\<close>, \<open>VK_TIMEOUT\<close> included, is thrown: it is not a verdict.
\<close>

lemma infiniteTimeout_all_ones: "infiniteTimeout = - 1 \<and> unat infiniteTimeout = 2 ^ 64 - 1"
  by (simp add: infiniteTimeout_def unsigned_minus_1_eq_mask mask_eq_exp_minus_1)

lemma wait_failure_is_thrown:
  assumes "vkResult ctx (length (calls s)) = VK_SUCCESS"
      and "vkResult ctx (Suc (length (calls s))) = VK_SUCCESS"
      and "vkResult ctx (Suc (Suc (length (calls s)))) = r" "r \<noteq> VK_SUCCESS"
  shows "iterate_submit ctx cmdBuffer s = Inl (VkFailure r)"
  using assms by (simp add: iterate_submit_def vkCreate_def vkCall_def newHandle_def Let_def)

subsection \<open>The concrete device and its runs\<close>

lemma copyContext_simps [simp]:
  "vkResult copyContext n = VK_SUCCESS"
  "bufferMemoryRequirements copyContext n = \<lparr>mr_size = n, mr_alignment = 1, mr_memoryTypeBits = 1\<rparr>"
  "allocPlace copyContext k = (Suc k, 0)"
  "priorContent copyContext k i = 255"
  "binaryCollection copyContext ''compute'' = Some []"
  "universalQueue copyContext = 1"
  "universalQueueFamilyIndex copyContext = 0"
  "deviceWrites copyContext cs store k i = (if k = 1 then store ! 0 ! i else store ! k ! i)"
  "DE_DEBUG copyContext = True"
  by (simp_all add: copyContext_def)

lemmas buffer_defs = createBufferAndBindMemory_def setMemory_def clearMemory_def
  allocate_def flushMappedMemoryRange_def vkCreate_def vkCall_def newHandle_def
  deMemcpy_def deMemset_def getNumBytes_def data_def Let_def createDescriptorInfo_def
  iterate_buffers_def DE_ASSERT_def emptyLocals_def emptyState_def

lemma copy_buffers: "iterate_buffers copyContext copySpec = Inr (copyLocals, copyReady)"
  by (simp add: buffer_defs copySpec_def copyLocals_def copyReady_def copyBufferCalls_def numeral_eq_Suc)

lemma mismatch_buffers: "iterate_buffers copyContext mismatchSpec = Inr (copyLocals, copyReady)"
  by (simp add: buffer_defs copySpec_def mismatchSpec_def copyLocals_def copyReady_def copyBufferCalls_def numeral_eq_Suc)

lemmas run_defs = iterate_layouts_def iterate_pipeline_def iterate_record_def iterate_submit_def
  createDescriptorSetLayout_def createPipelineLayout_def createDescriptorPool_def createDescriptorSet_def
  createShader_def createComputePipeline_def createCommandPool_def getBinary_def
  vkCreate_def vkCall_def newHandle_def deviceCompleted_def Let_def writeSingleLoop_returns writeOf_def

lemma copy_run: "iterate_run copyContext copySpec = Some (Inr (copyLocals, copyDone))"
  apply (simp add: iterate_run_def copy_buffers)
  apply (simp add: run_defs copySpec_def copyLocals_def copyReady_def copyDone_def copyBufferCalls_def
      copyRunCalls_def)
  done

lemma mismatch_run: "iterate_run copyContext mismatchSpec = Some (Inr (copyLocals, copyDone))"
  apply (simp add: iterate_run_def mismatch_buffers)
  apply (simp add: run_defs copySpec_def mismatchSpec_def copyLocals_def copyReady_def copyDone_def
      copyBufferCalls_def copyRunCalls_def)
  done

lemma instance_simps [simp]:
  "m_context copyInstance = copyContext" "m_shaderSpec copyInstance = copySpec"
  "m_context mismatchInstance = copyContext" "m_shaderSpec mismatchInstance = mismatchSpec"
  by (simp_all add: copyInstance_def mismatchInstance_def createInstance_def
      newSpvAsmComputeShaderInstance_def newSpvAsmComputeShaderCase_def)

lemma releaseContext_simps [simp]:
  "vkResult releaseContext n = VK_SUCCESS"
  "binaryCollection releaseContext ''compute'' = Some []"
  "universalQueue releaseContext = 1"
  "universalQueueFamilyIndex releaseContext = 0"
  "DE_DEBUG releaseContext = False"
  by (simp_all add: releaseContext_def copyContext_def)

lemma noOutput_run:
  "iterate_run releaseContext noOutputSpec =
     Some (Inr (emptyLocals,
       \<lparr>calls = [CreateDescriptorSetLayout [] 1,
                  CreatePipelineLayout [1] 0 2,
                  CreateDescriptorPool [(VK_DESCRIPTOR_TYPE_STORAGE_BUFFER, 0)] VK_DESCRIPTOR_POOL_USAGE_ONE_SHOT 1 3,
                  AllocDescriptorSet 3 VK_DESCRIPTOR_SET_USAGE_ONE_SHOT 1 4,
                  UpdateDescriptorSets [],
                  CreateShaderModule [] 0 6,
                  CreateShader 6 ''main'' 0 VK_SHADER_STAGE_COMPUTE 7,
                  CreateComputePipeline 0 VK_SHADER_STAGE_COMPUTE 7 0 2 0 8,
                  CreateCommandPool 0 0 9,
                  CreateCommandBuffer 9 VK_CMD_BUFFER_LEVEL_PRIMARY 0 10,
                  BeginCommandBuffer 10 VK_CMD_BUFFER_OPTIMIZE_ONE_TIME_SUBMIT_BIT,
                  CmdBindPipeline 10 VK_PIPELINE_BIND_POINT_COMPUTE 8,
                  CmdBindDescriptorSets 10 VK_PIPELINE_BIND_POINT_COMPUTE 2 0 [4] [],
                  CmdDispatch 10 1 1 1,
                  EndCommandBuffer 10,
                  CreateFence 0 16,
                  QueueSubmit 1 [10] 16,
                  WaitForFences [16] 0 infiniteTimeout],
         host = []\<rparr>))"
  by (simp add: iterate_run_def iterate_buffers_def DE_ASSERT_def run_defs noOutputSpec_def
      emptyLocals_def emptyState_def)

lemma threeInstance_simps [simp]:
  "m_context threeInstance = copyContext" "m_shaderSpec threeInstance = threeSpec"
  by (simp_all add: threeInstance_def createInstance_def
      newSpvAsmComputeShaderInstance_def newSpvAsmComputeShaderCase_def)

lemma three_buffers:
  "\<exists>l s. iterate_buffers copyContext threeSpec = Inr (l, s)
     \<and> outputAllocs l = [\<lparr>getMemory = 1, getOffset = 0, getHostPtr = 0\<rparr>,
                         \<lparr>getMemory = 2, getOffset = 0, getHostPtr = 1\<rparr>,
                         \<lparr>getMemory = 3, getOffset = 0, getHostPtr = 2\<rparr>]
     \<and> host s = [[0], [0], [0]]"
  by (simp add: buffer_defs threeSpec_def)

lemma three_run:
  "\<exists>l s. iterate_run copyContext threeSpec = Some (Inr (l, s))
     \<and> outputAllocs l = [\<lparr>getMemory = 1, getOffset = 0, getHostPtr = 0\<rparr>,
                         \<lparr>getMemory = 2, getOffset = 0, getHostPtr = 1\<rparr>,
                         \<lparr>getMemory = 3, getOffset = 0, getHostPtr = 2\<rparr>]
     \<and> host s = [[0], [0], [0]]"
proof -
  from three_buffers obtain l0 s0 where
    b: "iterate_buffers copyContext threeSpec = Inr (l0, s0)" and
    a: "outputAllocs l0 = [\<lparr>getMemory = 1, getOffset = 0, getHostPtr = 0\<rparr>,
                         \<lparr>getMemory = 2, getOffset = 0, getHostPtr = 1\<rparr>,
                         \<lparr>getMemory = 3, getOffset = 0, getHostPtr = 2\<rparr>]" and
    h: "host s0 = [[0], [0], [0]]"
    by blast
  from iterate_run_returns [of copyContext "[]" threeSpec] obtain l s where
    r: "iterate_run copyContext threeSpec = Some (Inr (l, s))"
    by (auto simp: threeSpec_def)
  from iterate_run_Inr [OF r] b obtain rest where
    "l = l0" "s = deviceCompleted copyContext (s0\<lparr>calls := calls s0 @ rest\<rparr>)"
    by auto
  with r a h show ?thesis by (simp add: deviceCompleted_def)
qed

section \<open>The claims\<close>

text \<open>
  C5. Writing a byte sequence \<open>B\<close> that fits the mapped range into a buffer with
  \<open>setMemory\<close> (as \<open>iterate\<close> does for an input: \<open>numBytes\<close> is the length of \<open>B\<close>) and
  reading the same range back through the host view yields exactly \<open>B\<close>. The write
  returns whenever the flush succeeds, and the flush covers exactly the written range.
\<close>

theorem setMemory_roundtrip:
  assumes "getHostPtr a < length (host s)"
      and "length B \<le> length (host s ! getHostPtr a)"
      and "vkResult ctx (length (calls s)) = VK_SUCCESS"
  shows "\<exists>s'. setMemory ctx a (length B) B s = Inr s'
              \<and> take (length B) (host s' ! getHostPtr a) = B
              \<and> calls s' = calls s @ [FlushMappedMemoryRanges (getMemory a) (getOffset a) (length B)]"
  using assms by (simp add: setMemory_eq_Inr)

theorem setMemory_roundtrip_witness:
  "getHostPtr firstAlloc < length (host oneRange)
   \<and> length [1, 2, 3 :: byte] \<le> length (host oneRange ! getHostPtr firstAlloc)
   \<and> vkResult copyContext (length (calls oneRange)) = VK_SUCCESS
   \<and> (\<exists>s'. setMemory copyContext firstAlloc (length [1, 2, 3 :: byte]) [1, 2, 3] oneRange = Inr s'
            \<and> take (length [1, 2, 3 :: byte]) (host s' ! getHostPtr firstAlloc) = [1, 2, 3]
            \<and> calls s' = calls oneRange @
                 [FlushMappedMemoryRanges (getMemory firstAlloc) (getOffset firstAlloc) (length [1, 2, 3 :: byte])])"
proof -
  have h1: "getHostPtr firstAlloc < length (host oneRange)"
    by (simp add: firstAlloc_def oneRange_def)
  have h2: "length [1, 2, 3 :: byte] \<le> length (host oneRange ! getHostPtr firstAlloc)"
    by (simp add: firstAlloc_def oneRange_def)
  have h3: "vkResult copyContext (length (calls oneRange)) = VK_SUCCESS"
    by simp
  from setMemory_roundtrip [OF h1 h2 h3] h1 h2 h3 show ?thesis by (intro conjI)
qed

text \<open>
  C10. \<open>setMemory\<close> and \<open>clearMemory\<close> change only the first \<open>numBytes\<close> bytes of the
  mapped range of their allocation: the range keeps its length, every byte at an offset
  at or beyond \<open>numBytes\<close> keeps its value, and no other mapped range changes.
\<close>

theorem memory_frame:
  "(setMemory ctx a numBytes src s = Inr s' \<or> clearMemory ctx a numBytes s = Inr s') \<longrightarrow>
     length (host s') = length (host s)
     \<and> length (host s' ! getHostPtr a) = length (host s ! getHostPtr a)
     \<and> drop numBytes (host s' ! getHostPtr a) = drop numBytes (host s ! getHostPtr a)
     \<and> (\<forall>i. numBytes \<le> i \<and> i < length (host s ! getHostPtr a)
            \<longrightarrow> host s' ! getHostPtr a ! i = host s ! getHostPtr a ! i)
     \<and> (\<forall>k. k \<noteq> getHostPtr a \<longrightarrow> host s' ! k = host s ! k)"
  by (auto simp: setMemory_eq_Inr clearMemory_eq_Inr nth_append)

theorem memory_frame_witness:
  "setMemory copyContext firstAlloc 3 [1, 2, 3] oneRange
     = Inr \<lparr>calls = [FlushMappedMemoryRanges 1 0 3], host = [[1, 2, 3, 255]]\<rparr>
   \<and> drop 3 (host \<lparr>calls = [FlushMappedMemoryRanges 1 0 3], host = [[1, 2, 3, 255]]\<rparr> ! getHostPtr firstAlloc)
       = drop 3 (host oneRange ! getHostPtr firstAlloc)
   \<and> clearMemory copyContext firstAlloc 3 oneRange
     = Inr \<lparr>calls = [FlushMappedMemoryRanges 1 0 3], host = [[0, 0, 0, 255]]\<rparr>
   \<and> drop 3 (host \<lparr>calls = [FlushMappedMemoryRanges 1 0 3], host = [[0, 0, 0, 255]]\<rparr> ! getHostPtr firstAlloc)
       = drop 3 (host oneRange ! getHostPtr firstAlloc)"
proof -
  have w: "setMemory copyContext firstAlloc 3 [1, 2, 3] oneRange
     = Inr \<lparr>calls = [FlushMappedMemoryRanges 1 0 3], host = [[1, 2, 3, 255]]\<rparr>"
    by (simp add: setMemory_eq_Inr firstAlloc_def oneRange_def)
  have c: "clearMemory copyContext firstAlloc 3 oneRange
     = Inr \<lparr>calls = [FlushMappedMemoryRanges 1 0 3], host = [[0, 0, 0, 255]]\<rparr>"
    by (simp add: clearMemory_eq_Inr firstAlloc_def oneRange_def numeral_3_eq_3)
  from memory_frame [of copyContext firstAlloc 3 "[1, 2, 3]" oneRange
      "\<lparr>calls = [FlushMappedMemoryRanges 1 0 3], host = [[1, 2, 3, 255]]\<rparr>"] w
  have 1: "drop 3 (host \<lparr>calls = [FlushMappedMemoryRanges 1 0 3], host = [[1, 2, 3, 255]]\<rparr> ! getHostPtr firstAlloc)
       = drop 3 (host oneRange ! getHostPtr firstAlloc)" by blast
  from memory_frame [of copyContext firstAlloc 3 "[]" oneRange
      "\<lparr>calls = [FlushMappedMemoryRanges 1 0 3], host = [[0, 0, 0, 255]]\<rparr>"] c
  have 2: "drop 3 (host \<lparr>calls = [FlushMappedMemoryRanges 1 0 3], host = [[0, 0, 0, 255]]\<rparr> ! getHostPtr firstAlloc)
       = drop 3 (host oneRange ! getHostPtr firstAlloc)" by blast
  from w c 1 2 show ?thesis by (intro conjI)
qed

text \<open>
  C6, as amended. \<open>createBufferAndBindMemory\<close> returns whenever its three calls succeed.
  When it returns it has made exactly these calls: it has created a storage buffer of
  exactly \<open>numBytes\<close> bytes, asked the allocator for host-visible memory that meets the
  driver's requirements for that size, and bound the buffer to the memory of the
  allocation at the allocation's own offset, which is the offset the allocator chose
  (so offset 0 exactly when the allocator places the allocation at 0).
\<close>

theorem createBufferAndBindMemory_binds:
  "(vkResult ctx (length (calls s)) = VK_SUCCESS
      \<and> vkResult ctx (Suc (length (calls s))) = VK_SUCCESS
      \<and> vkResult ctx (Suc (Suc (length (calls s)))) = VK_SUCCESS
      \<longrightarrow> (\<exists>r. createBufferAndBindMemory ctx numBytes s = Inr r))
   \<and> (createBufferAndBindMemory ctx numBytes s = Inr ((buffer, alloc), s') \<longrightarrow>
        calls s' = calls s @
          [CreateBuffer \<lparr>bci_size = numBytes, bci_usage = VK_BUFFER_USAGE_STORAGE_BUFFER_BIT,
                         bci_flags = 0, bci_sharingMode = VK_SHARING_MODE_EXCLUSIVE,
                         bci_queueFamilyCount = 0\<rparr> buffer,
           AllocatorAllocate (bufferMemoryRequirements ctx numBytes) HostVisible alloc,
           BindBufferMemory buffer (getMemory alloc) (getOffset alloc)]
        \<and> getOffset alloc = snd (allocPlace ctx (length (host s)))
        \<and> getHostPtr alloc = length (host s)
        \<and> length (host s') = Suc (length (host s))
        \<and> length (host s' ! getHostPtr alloc) = mr_size (bufferMemoryRequirements ctx numBytes))"
  by (auto simp: createBufferAndBindMemory_eq_Inr)

theorem createBufferAndBindMemory_binds_witness:
  "vkResult copyContext (length (calls emptyState)) = VK_SUCCESS
   \<and> vkResult copyContext (Suc (length (calls emptyState))) = VK_SUCCESS
   \<and> vkResult copyContext (Suc (Suc (length (calls emptyState)))) = VK_SUCCESS
   \<and> (\<exists>r. createBufferAndBindMemory copyContext 4 emptyState = Inr r)
   \<and> createBufferAndBindMemory copyContext 4 emptyState
     = Inr ((1, \<lparr>getMemory = 1, getOffset = 0, getHostPtr = 0\<rparr>),
            \<lparr>calls = take 3 copyBufferCalls, host = [[255, 255, 255, 255]]\<rparr>)
   \<and> calls \<lparr>calls = take 3 copyBufferCalls, host = [[255, 255, 255, 255 :: byte]]\<rparr> = calls emptyState @
          [CreateBuffer \<lparr>bci_size = 4, bci_usage = VK_BUFFER_USAGE_STORAGE_BUFFER_BIT,
                         bci_flags = 0, bci_sharingMode = VK_SHARING_MODE_EXCLUSIVE,
                         bci_queueFamilyCount = 0\<rparr> 1,
           AllocatorAllocate (bufferMemoryRequirements copyContext 4) HostVisible
             \<lparr>getMemory = 1, getOffset = 0, getHostPtr = 0\<rparr>,
           BindBufferMemory 1 (getMemory \<lparr>getMemory = 1, getOffset = 0, getHostPtr = 0\<rparr>)
             (getOffset \<lparr>getMemory = 1, getOffset = 0, getHostPtr = 0\<rparr>)]"
proof -
  have e: "createBufferAndBindMemory copyContext 4 emptyState
     = Inr ((1, \<lparr>getMemory = 1, getOffset = 0, getHostPtr = 0\<rparr>),
            \<lparr>calls = take 3 copyBufferCalls, host = [[255, 255, 255, 255]]\<rparr>)"
    by (simp add: createBufferAndBindMemory_eq_Inr emptyState_def copyBufferCalls_def upt_rec)
  have ok: "vkResult copyContext (length (calls emptyState)) = VK_SUCCESS
      \<and> vkResult copyContext (Suc (length (calls emptyState))) = VK_SUCCESS
      \<and> vkResult copyContext (Suc (Suc (length (calls emptyState)))) = VK_SUCCESS"
    by simp
  note t = createBufferAndBindMemory_binds [of copyContext emptyState 4 1
      "\<lparr>getMemory = 1, getOffset = 0, getHostPtr = 0\<rparr>"
      "\<lparr>calls = take 3 copyBufferCalls, host = [[255, 255, 255, 255]]\<rparr>"]
  from t ok have 1: "\<exists>r. createBufferAndBindMemory copyContext 4 emptyState = Inr r" by blast
  from t e ok 1 show ?thesis by blast
qed

text \<open>
  C6 as stated fails: with an allocator that places its allocations at offset 16, the
  buffer is bound at offset 16, not 0.
\<close>

theorem createBufferAndBindMemory_offset_counterexample:
  "createBufferAndBindMemory offsetContext 4 emptyState
     = Inr ((1, \<lparr>getMemory = 1, getOffset = 16, getHostPtr = 0\<rparr>),
            \<lparr>calls = [CreateBuffer \<lparr>bci_size = 4, bci_usage = VK_BUFFER_USAGE_STORAGE_BUFFER_BIT,
                                     bci_flags = 0, bci_sharingMode = VK_SHARING_MODE_EXCLUSIVE,
                                     bci_queueFamilyCount = 0\<rparr> 1,
                       AllocatorAllocate \<lparr>mr_size = 4, mr_alignment = 1, mr_memoryTypeBits = 1\<rparr>
                         HostVisible \<lparr>getMemory = 1, getOffset = 16, getHostPtr = 0\<rparr>,
                       BindBufferMemory 1 1 16],
             host = [[255, 255, 255, 255]]\<rparr>)"
  by (simp add: createBufferAndBindMemory_eq_Inr emptyState_def offsetContext_def copyContext_def upt_rec)

text \<open>
  C4. Setting up an output buffer of any size \<open>S\<close> (\<open>createBufferAndBindMemory\<close>, then
  \<open>clearMemory\<close>) returns whenever the driver's memory requirement covers the buffer and
  its four calls succeed, whatever the memory held before. When it returns, the host
  view of the buffer starts with \<open>S\<close> zero bytes, and the last call made is a flush of
  exactly \<open>S\<close> bytes at the allocation's memory and offset. In a run of \<open>iterate\<close> that
  reaches the check, this holds for every declared output in the state in which the two
  loops end; no command has been recorded by then, and everything up to the wait on the
  fence is made of further calls on that state, its host views unchanged.
\<close>

theorem output_setup_zeroed:
  "(S \<le> mr_size (bufferMemoryRequirements ctx S)
      \<and> vkResult ctx (length (calls s)) = VK_SUCCESS
      \<and> vkResult ctx (Suc (length (calls s))) = VK_SUCCESS
      \<and> vkResult ctx (Suc (Suc (length (calls s)))) = VK_SUCCESS
      \<and> vkResult ctx (Suc (Suc (Suc (length (calls s))))) = VK_SUCCESS
      \<longrightarrow> (\<exists>b a s1 s2. createBufferAndBindMemory ctx S s = Inr ((b, a), s1)
                        \<and> clearMemory ctx a S s1 = Inr s2))
   \<and> (createBufferAndBindMemory ctx S s = Inr ((b, a), s1) \<and> clearMemory ctx a S s1 = Inr s2 \<longrightarrow>
        getHostPtr a < length (host s2)
        \<and> take S (host s2 ! getHostPtr a) = replicate S 0
        \<and> calls s2 = calls s1 @ [FlushMappedMemoryRanges (getMemory a) (getOffset a) S])
   \<and> (iterate_run ctx spec = Some (Inr (l, sf)) \<longrightarrow>
        (\<exists>s0 rest. iterate_buffers ctx spec = Inr (l, s0)
            \<and> sf = deviceCompleted ctx (s0\<lparr>calls := calls s0 @ rest\<rparr>)
            \<and> filter isCommand (calls s0) = []
            \<and> (\<forall>i<length (outputs spec).
                  bufferReady s0 (outputBuffers l ! i) (outputAllocs l ! i)
                    (replicate (length (outputs spec ! i)) 0))))"
proof (intro conjI impI)
  assume a: "S \<le> mr_size (bufferMemoryRequirements ctx S)
      \<and> vkResult ctx (length (calls s)) = VK_SUCCESS
      \<and> vkResult ctx (Suc (length (calls s))) = VK_SUCCESS
      \<and> vkResult ctx (Suc (Suc (length (calls s)))) = VK_SUCCESS
      \<and> vkResult ctx (Suc (Suc (Suc (length (calls s))))) = VK_SUCCESS"
  then show "\<exists>b a s1 s2. createBufferAndBindMemory ctx S s = Inr ((b, a), s1)
                        \<and> clearMemory ctx a S s1 = Inr s2"
    by (simp add: createBufferAndBindMemory_eq_Inr clearMemory_eq_Inr)
next
  assume a: "createBufferAndBindMemory ctx S s = Inr ((b, a), s1) \<and> clearMemory ctx a S s1 = Inr s2"
  then show "getHostPtr a < length (host s2)"
    and "take S (host s2 ! getHostPtr a) = replicate S 0"
    and "calls s2 = calls s1 @ [FlushMappedMemoryRanges (getMemory a) (getOffset a) S]"
    by (simp_all add: clearMemory_eq_Inr)
next
  assume r: "iterate_run ctx spec = Some (Inr (l, sf))"
  from iterate_run_Inr [OF r] obtain s0 rest where
    b: "iterate_buffers ctx spec = Inr (l, s0)" and
    sf: "sf = deviceCompleted ctx (s0\<lparr>calls := calls s0 @ rest\<rparr>)"
    by blast
  from iterate_buffers_Inr [OF b] b sf
  show "\<exists>s0 rest. iterate_buffers ctx spec = Inr (l, s0)
            \<and> sf = deviceCompleted ctx (s0\<lparr>calls := calls s0 @ rest\<rparr>)
            \<and> filter isCommand (calls s0) = []
            \<and> (\<forall>i<length (outputs spec).
                  bufferReady s0 (outputBuffers l ! i) (outputAllocs l ! i)
                    (replicate (length (outputs spec ! i)) 0))"
    by blast
qed

theorem output_setup_zeroed_witness:
  "4 \<le> mr_size (bufferMemoryRequirements copyContext 4)
   \<and> vkResult copyContext (length (calls emptyState)) = VK_SUCCESS
   \<and> vkResult copyContext (Suc (length (calls emptyState))) = VK_SUCCESS
   \<and> vkResult copyContext (Suc (Suc (length (calls emptyState)))) = VK_SUCCESS
   \<and> vkResult copyContext (Suc (Suc (Suc (length (calls emptyState))))) = VK_SUCCESS
   \<and> (\<exists>b a s1 s2. createBufferAndBindMemory copyContext 4 emptyState = Inr ((b, a), s1)
                        \<and> clearMemory copyContext a 4 s1 = Inr s2)
   \<and> createBufferAndBindMemory copyContext 4 emptyState
     = Inr ((1, \<lparr>getMemory = 1, getOffset = 0, getHostPtr = 0\<rparr>),
            \<lparr>calls = take 3 copyBufferCalls, host = [[255, 255, 255, 255]]\<rparr>)
   \<and> clearMemory copyContext \<lparr>getMemory = 1, getOffset = 0, getHostPtr = 0\<rparr> 4
        \<lparr>calls = take 3 copyBufferCalls, host = [[255, 255, 255, 255]]\<rparr>
     = Inr \<lparr>calls = take 3 copyBufferCalls @ [FlushMappedMemoryRanges 1 0 4], host = [[0, 0, 0, 0]]\<rparr>
   \<and> take 4 (host \<lparr>calls = take 3 copyBufferCalls @ [FlushMappedMemoryRanges 1 0 4],
                     host = [[0, 0, 0, 0 :: byte]]\<rparr>
               ! getHostPtr \<lparr>getMemory = 1, getOffset = 0, getHostPtr = 0\<rparr>) = replicate 4 0
   \<and> iterate_run copyContext copySpec = Some (Inr (copyLocals, copyDone))
   \<and> (\<exists>s0 rest. iterate_buffers copyContext copySpec = Inr (copyLocals, s0)
            \<and> copyDone = deviceCompleted copyContext (s0\<lparr>calls := calls s0 @ rest\<rparr>)
            \<and> filter isCommand (calls s0) = []
            \<and> (\<forall>i<length (outputs copySpec).
                  bufferReady s0 (outputBuffers copyLocals ! i) (outputAllocs copyLocals ! i)
                    (replicate (length (outputs copySpec ! i)) 0)))"
proof -
  have e1: "createBufferAndBindMemory copyContext 4 emptyState
     = Inr ((1, \<lparr>getMemory = 1, getOffset = 0, getHostPtr = 0\<rparr>),
            \<lparr>calls = take 3 copyBufferCalls, host = [[255, 255, 255, 255]]\<rparr>)"
    by (simp add: createBufferAndBindMemory_eq_Inr emptyState_def copyBufferCalls_def upt_rec)
  have e2: "clearMemory copyContext \<lparr>getMemory = 1, getOffset = 0, getHostPtr = 0\<rparr> 4
        \<lparr>calls = take 3 copyBufferCalls, host = [[255, 255, 255, 255]]\<rparr>
     = Inr \<lparr>calls = take 3 copyBufferCalls @ [FlushMappedMemoryRanges 1 0 4], host = [[0, 0, 0, 0]]\<rparr>"
    by (simp add: clearMemory_eq_Inr copyBufferCalls_def numeral_eq_Suc)
  note t = output_setup_zeroed [where S = 4 and ctx = copyContext and s = emptyState and b = 1
      and a = "\<lparr>getMemory = 1, getOffset = 0, getHostPtr = 0\<rparr>"
      and ?s1.0 = "\<lparr>calls = take 3 copyBufferCalls, host = [[255, 255, 255, 255]]\<rparr>"
      and ?s2.0 = "\<lparr>calls = take 3 copyBufferCalls @ [FlushMappedMemoryRanges 1 0 4], host = [[0, 0, 0, 0]]\<rparr>"
      and spec = copySpec and l = copyLocals and sf = copyDone]
  from t e1 e2 have 1: "take 4 (host \<lparr>calls = take 3 copyBufferCalls @ [FlushMappedMemoryRanges 1 0 4],
                     host = [[0, 0, 0, 0 :: byte]]\<rparr>
               ! getHostPtr \<lparr>getMemory = 1, getOffset = 0, getHostPtr = 0\<rparr>) = replicate 4 0"
    by blast
  from t copy_run have 2: "\<exists>s0 rest. iterate_buffers copyContext copySpec = Inr (copyLocals, s0)
            \<and> copyDone = deviceCompleted copyContext (s0\<lparr>calls := calls s0 @ rest\<rparr>)
            \<and> filter isCommand (calls s0) = []
            \<and> (\<forall>i<length (outputs copySpec).
                  bufferReady s0 (outputBuffers copyLocals ! i) (outputAllocs copyLocals ! i)
                    (replicate (length (outputs copySpec ! i)) 0))"
    by blast
  have ok: "4 \<le> mr_size (bufferMemoryRequirements copyContext 4)
      \<and> vkResult copyContext (length (calls emptyState)) = VK_SUCCESS
      \<and> vkResult copyContext (Suc (length (calls emptyState))) = VK_SUCCESS
      \<and> vkResult copyContext (Suc (Suc (length (calls emptyState)))) = VK_SUCCESS
      \<and> vkResult copyContext (Suc (Suc (Suc (length (calls emptyState))))) = VK_SUCCESS"
    by simp
  from t ok have 0: "\<exists>b a s1 s2. createBufferAndBindMemory copyContext 4 emptyState = Inr ((b, a), s1)
                        \<and> clearMemory copyContext a 4 s1 = Inr s2"
    by blast
  from ok 0 e1 e2 1 copy_run 2 show ?thesis by (intro conjI) simp_all
qed

text \<open>
  C1. \<open>iterate\<close> returns the Pass verdict if and only if the run reaches the check
  (no call has failed and the loops have ended) and, for every declared output, the
  bytes in the host view of its allocation after the wait on the fence equal the
  expected bytes over the expected buffer's length. It returns the Fail verdict if and
  only if the run reaches the check and some output differs. The equivalences hold for
  every specification, in particular for those with at least one output.
\<close>

theorem iterate_verdict:
  "(iterate inst = Some (Inr (TestStatus_pass ''Ouput match with expected'')) \<longleftrightarrow>
      (\<exists>l s. iterate_run (m_context inst) (m_shaderSpec inst) = Some (Inr (l, s))
          \<and> (\<forall>i<length (outputs (m_shaderSpec inst)).
                take (length (outputs (m_shaderSpec inst) ! i))
                  (host s ! getHostPtr (outputAllocs l ! i)) = outputs (m_shaderSpec inst) ! i)))
   \<and> (iterate inst = Some (Inr (TestStatus_fail ''Output doesn't match with expected'')) \<longleftrightarrow>
      (\<exists>l s. iterate_run (m_context inst) (m_shaderSpec inst) = Some (Inr (l, s))
          \<and> (\<exists>i<length (outputs (m_shaderSpec inst)).
                take (length (outputs (m_shaderSpec inst) ! i))
                  (host s ! getHostPtr (outputAllocs l ! i)) \<noteq> outputs (m_shaderSpec inst) ! i)))
   \<and> (\<forall>v. iterate inst = Some (Inr v) \<longrightarrow>
          v = TestStatus_pass ''Ouput match with expected''
          \<or> v = TestStatus_fail ''Output doesn't match with expected'')"
proof (intro conjI iffI allI impI)
  assume p: "iterate inst = Some (Inr (TestStatus_pass ''Ouput match with expected''))"
  from iterate_verdict_run [OF p] obtain l s where
    r: "iterate_run (m_context inst) (m_shaderSpec inst) = Some (Inr (l, s))" by blast
  from iterate_of_run [OF r] p r
  show "\<exists>l s. iterate_run (m_context inst) (m_shaderSpec inst) = Some (Inr (l, s))
          \<and> (\<forall>i<length (outputs (m_shaderSpec inst)).
                take (length (outputs (m_shaderSpec inst) ! i))
                  (host s ! getHostPtr (outputAllocs l ! i)) = outputs (m_shaderSpec inst) ! i)"
    by (auto split: if_splits)
next
  assume "\<exists>l s. iterate_run (m_context inst) (m_shaderSpec inst) = Some (Inr (l, s))
          \<and> (\<forall>i<length (outputs (m_shaderSpec inst)).
                take (length (outputs (m_shaderSpec inst) ! i))
                  (host s ! getHostPtr (outputAllocs l ! i)) = outputs (m_shaderSpec inst) ! i)"
  then obtain l s where
    r: "iterate_run (m_context inst) (m_shaderSpec inst) = Some (Inr (l, s))" and
    a: "\<forall>i<length (outputs (m_shaderSpec inst)).
                take (length (outputs (m_shaderSpec inst) ! i))
                  (host s ! getHostPtr (outputAllocs l ! i)) = outputs (m_shaderSpec inst) ! i"
    by blast
  from iterate_of_run [OF r] a
  show "iterate inst = Some (Inr (TestStatus_pass ''Ouput match with expected''))" by simp
next
  assume f: "iterate inst = Some (Inr (TestStatus_fail ''Output doesn't match with expected''))"
  from iterate_verdict_run [OF f] obtain l s where
    r: "iterate_run (m_context inst) (m_shaderSpec inst) = Some (Inr (l, s))" by blast
  from iterate_of_run [OF r] f r
  show "\<exists>l s. iterate_run (m_context inst) (m_shaderSpec inst) = Some (Inr (l, s))
          \<and> (\<exists>i<length (outputs (m_shaderSpec inst)).
                take (length (outputs (m_shaderSpec inst) ! i))
                  (host s ! getHostPtr (outputAllocs l ! i)) \<noteq> outputs (m_shaderSpec inst) ! i)"
    by (auto split: if_splits)
next
  assume "\<exists>l s. iterate_run (m_context inst) (m_shaderSpec inst) = Some (Inr (l, s))
          \<and> (\<exists>i<length (outputs (m_shaderSpec inst)).
                take (length (outputs (m_shaderSpec inst) ! i))
                  (host s ! getHostPtr (outputAllocs l ! i)) \<noteq> outputs (m_shaderSpec inst) ! i)"
  then obtain l s where
    r: "iterate_run (m_context inst) (m_shaderSpec inst) = Some (Inr (l, s))" and
    a: "\<not> (\<forall>i<length (outputs (m_shaderSpec inst)).
                take (length (outputs (m_shaderSpec inst) ! i))
                  (host s ! getHostPtr (outputAllocs l ! i)) = outputs (m_shaderSpec inst) ! i)"
    by blast
  from iterate_of_run [OF r] a
  show "iterate inst = Some (Inr (TestStatus_fail ''Output doesn't match with expected''))" by simp
next
  fix v assume v: "iterate inst = Some (Inr v)"
  from iterate_verdict_run [OF v] obtain l s where
    r: "iterate_run (m_context inst) (m_shaderSpec inst) = Some (Inr (l, s))" by blast
  from iterate_of_run [OF r] v
  show "v = TestStatus_pass ''Ouput match with expected''
          \<or> v = TestStatus_fail ''Output doesn't match with expected''"
    by (auto split: if_splits)
qed

theorem iterate_verdict_witness:
  "iterate copyInstance = Some (Inr (TestStatus_pass ''Ouput match with expected''))
   \<and> iterate mismatchInstance = Some (Inr (TestStatus_fail ''Output doesn't match with expected''))"
proof -
  have 1: "\<exists>l s. iterate_run (m_context copyInstance) (m_shaderSpec copyInstance) = Some (Inr (l, s))
          \<and> (\<forall>i<length (outputs (m_shaderSpec copyInstance)).
                take (length (outputs (m_shaderSpec copyInstance) ! i))
                  (host s ! getHostPtr (outputAllocs l ! i)) = outputs (m_shaderSpec copyInstance) ! i)"
    apply (rule exI [of _ copyLocals], rule exI [of _ copyDone])
    apply (simp add: copy_run)
    apply (simp add: copySpec_def copyLocals_def copyDone_def)
    done
  have 2: "\<exists>l s. iterate_run (m_context mismatchInstance) (m_shaderSpec mismatchInstance) = Some (Inr (l, s))
          \<and> (\<exists>i<length (outputs (m_shaderSpec mismatchInstance)).
                take (length (outputs (m_shaderSpec mismatchInstance) ! i))
                  (host s ! getHostPtr (outputAllocs l ! i)) \<noteq> outputs (m_shaderSpec mismatchInstance) ! i)"
    apply (rule exI [of _ copyLocals], rule exI [of _ copyDone])
    apply (simp add: mismatch_run)
    apply (simp add: mismatchSpec_def copySpec_def copyLocals_def copyDone_def)
    done
  from iterate_verdict [of copyInstance] 1 iterate_verdict [of mismatchInstance] 2
  show ?thesis by blast
qed

text \<open>
  C9. The check stops at the first output that differs, in declaration order: when, in a
  run that reaches the check, the outputs before output \<open>k\<close> match and output \<open>k\<close> does
  not, \<open>iterate\<close> returns the Fail verdict with the fixed message, and the check returns
  that verdict whatever follows output \<open>k\<close> in the vector of expected outputs and in the
  vector of allocations, even where comparing a later entry would be undefined: no later
  output is compared.
\<close>

theorem first_mismatch_verdict:
  assumes "iterate_run (m_context inst) (m_shaderSpec inst) = Some (Inr (l, s))"
      and "k < length (outputs (m_shaderSpec inst))"
      and "\<forall>j<k. take (length (outputs (m_shaderSpec inst) ! j))
                   (host s ! getHostPtr (outputAllocs l ! j)) = outputs (m_shaderSpec inst) ! j"
      and "take (length (outputs (m_shaderSpec inst) ! k))
             (host s ! getHostPtr (outputAllocs l ! k)) \<noteq> outputs (m_shaderSpec inst) ! k"
  shows "iterate inst = Some (Inr (TestStatus_fail ''Output doesn't match with expected''))
         \<and> (\<forall>rest arest.
               iterate_check (host s) (take (Suc k) (outputs (m_shaderSpec inst)) @ rest)
                                      (take (Suc k) (outputAllocs l) @ arest)
                 = Inr (TestStatus_fail ''Output doesn't match with expected''))"
proof -
  let ?outs = "outputs (m_shaderSpec inst)" and ?allocs = "outputAllocs l"
  from iterate_run_outputs_mapped [OF assms(1)] have
    len: "length ?allocs = length ?outs" and
    mapped: "\<forall>i<length ?outs. getHostPtr (?allocs ! i) < length (host s)
              \<and> length (?outs ! i) \<le> length (host s ! getHostPtr (?allocs ! i))"
    by simp_all
  from assms(2) len have
    to: "take (Suc k) ?outs = take k ?outs @ [?outs ! k]" and
    ta: "take (Suc k) ?allocs = take k ?allocs @ [?allocs ! k]"
    by (simp_all add: take_Suc_conv_app_nth)
  have any: "iterate_check (host s) (take (Suc k) ?outs @ rest) (take (Suc k) ?allocs @ arest)
                 = Inr (TestStatus_fail ''Output doesn't match with expected'')" for rest arest
  proof -
    have "iterate_check (host s) (take k ?outs @ ?outs ! k # rest) (take k ?allocs @ ?allocs ! k # arest)
                 = Inr (TestStatus_fail ''Output doesn't match with expected'')"
    proof (rule iterate_check_first_mismatch)
      show "length (take k ?allocs) = length (take k ?outs)" using len by simp
      show "\<forall>j<length (take k ?outs). getHostPtr (take k ?allocs ! j) < length (host s)
              \<and> take (length (take k ?outs ! j)) (host s ! getHostPtr (take k ?allocs ! j)) = take k ?outs ! j"
        using assms(2,3) mapped by simp
      show "getHostPtr (?allocs ! k) < length (host s)"
        and "length (?outs ! k) \<le> length (host s ! getHostPtr (?allocs ! k))"
        using assms(2) mapped by simp_all
      show "take (length (?outs ! k)) (host s ! getHostPtr (?allocs ! k)) \<noteq> ?outs ! k"
        by (rule assms(4))
    qed
    then show ?thesis unfolding to ta by simp
  qed
  have "iterate inst = Some (iterate_check (host s) ?outs ?allocs)"
    using assms(1) by (simp add: iterate_def)
  moreover have "iterate_check (host s) ?outs ?allocs
      = iterate_check (host s) (take (Suc k) ?outs @ drop (Suc k) ?outs)
                               (take (Suc k) ?allocs @ drop (Suc k) ?allocs)"
    by simp
  ultimately have "iterate inst = Some (Inr (TestStatus_fail ''Output doesn't match with expected''))"
    by (simp only: any)
  with any show ?thesis by (intro conjI allI)
qed

theorem first_mismatch_verdict_witness:
  "iterate threeInstance = Some (Inr (TestStatus_fail ''Output doesn't match with expected''))
   \<and> (\<exists>l s. iterate_run (m_context threeInstance) (m_shaderSpec threeInstance) = Some (Inr (l, s))
         \<and> 1 < length (outputs (m_shaderSpec threeInstance))
         \<and> (\<forall>j<1. take (length (outputs (m_shaderSpec threeInstance) ! j))
                     (host s ! getHostPtr (outputAllocs l ! j)) = outputs (m_shaderSpec threeInstance) ! j)
         \<and> take (length (outputs (m_shaderSpec threeInstance) ! 1))
              (host s ! getHostPtr (outputAllocs l ! 1)) \<noteq> outputs (m_shaderSpec threeInstance) ! 1
         \<and> take (length (outputs (m_shaderSpec threeInstance) ! 2))
              (host s ! getHostPtr (outputAllocs l ! 2)) \<noteq> outputs (m_shaderSpec threeInstance) ! 2
         \<and> (\<forall>rest arest.
               iterate_check (host s) (take (Suc 1) (outputs (m_shaderSpec threeInstance)) @ rest)
                                      (take (Suc 1) (outputAllocs l) @ arest)
                 = Inr (TestStatus_fail ''Output doesn't match with expected'')))"
proof -
  from three_run obtain l s where
    r: "iterate_run (m_context threeInstance) (m_shaderSpec threeInstance) = Some (Inr (l, s))" and
    a: "outputAllocs l = [\<lparr>getMemory = 1, getOffset = 0, getHostPtr = 0\<rparr>,
                         \<lparr>getMemory = 2, getOffset = 0, getHostPtr = 1\<rparr>,
                         \<lparr>getMemory = 3, getOffset = 0, getHostPtr = 2\<rparr>]" and
    h: "host s = [[0], [0], [0]]"
    by auto
  have k: "1 < length (outputs (m_shaderSpec threeInstance))"
    by (simp add: threeSpec_def)
  have p: "\<forall>j<1. take (length (outputs (m_shaderSpec threeInstance) ! j))
                     (host s ! getHostPtr (outputAllocs l ! j)) = outputs (m_shaderSpec threeInstance) ! j"
    by (simp add: threeSpec_def a h)
  have m: "take (length (outputs (m_shaderSpec threeInstance) ! 1))
              (host s ! getHostPtr (outputAllocs l ! 1)) \<noteq> outputs (m_shaderSpec threeInstance) ! 1"
    by (simp add: threeSpec_def a h)
  have m2: "take (length (outputs (m_shaderSpec threeInstance) ! 2))
              (host s ! getHostPtr (outputAllocs l ! 2)) \<noteq> outputs (m_shaderSpec threeInstance) ! 2"
    by (simp add: threeSpec_def a h)
  note t = first_mismatch_verdict [OF r k p m]
  from r k p m m2 t [THEN conjunct2] have
    "\<exists>l s. iterate_run (m_context threeInstance) (m_shaderSpec threeInstance) = Some (Inr (l, s))
         \<and> 1 < length (outputs (m_shaderSpec threeInstance))
         \<and> (\<forall>j<1. take (length (outputs (m_shaderSpec threeInstance) ! j))
                     (host s ! getHostPtr (outputAllocs l ! j)) = outputs (m_shaderSpec threeInstance) ! j)
         \<and> take (length (outputs (m_shaderSpec threeInstance) ! 1))
              (host s ! getHostPtr (outputAllocs l ! 1)) \<noteq> outputs (m_shaderSpec threeInstance) ! 1
         \<and> take (length (outputs (m_shaderSpec threeInstance) ! 2))
              (host s ! getHostPtr (outputAllocs l ! 2)) \<noteq> outputs (m_shaderSpec threeInstance) ! 2
         \<and> (\<forall>rest arest.
               iterate_check (host s) (take (Suc 1) (outputs (m_shaderSpec threeInstance)) @ rest)
                                      (take (Suc 1) (outputAllocs l) @ arest)
                 = Inr (TestStatus_fail ''Output doesn't match with expected''))"
    by (intro exI [of _ l] exI [of _ s] conjI)
  with t [THEN conjunct1] show ?thesis by (intro conjI)
qed

text \<open>
  C7. In a run that reaches the check, the commands recorded are exactly three, in this
  order: the bind of the compute pipeline, the bind of the descriptor set at set index
  0 (one set, no dynamic offsets), and one dispatch whose three counts are the
  specification's \<open>numWorkGroups\<close>. They are recorded into one command buffer between
  its begin (for one-time submission) and its end, and that command buffer is the one
  submitted; the pipeline and the descriptor set are the ones created before.
\<close>

theorem recorded_commands:
  assumes "iterate_run ctx spec = Some (Inr (l, s))"
  shows "\<exists>cmdBuffer computePipeline pl ds fence before shader pool dsl.
           filter isCommand (calls s) =
             [CmdBindPipeline cmdBuffer VK_PIPELINE_BIND_POINT_COMPUTE computePipeline,
              CmdBindDescriptorSets cmdBuffer VK_PIPELINE_BIND_POINT_COMPUTE pl 0 [ds] [],
              CmdDispatch cmdBuffer (vec_x (numWorkGroups spec)) (vec_y (numWorkGroups spec))
                (vec_z (numWorkGroups spec))]
           \<and> calls s = before @
             [BeginCommandBuffer cmdBuffer VK_CMD_BUFFER_OPTIMIZE_ONE_TIME_SUBMIT_BIT,
              CmdBindPipeline cmdBuffer VK_PIPELINE_BIND_POINT_COMPUTE computePipeline,
              CmdBindDescriptorSets cmdBuffer VK_PIPELINE_BIND_POINT_COMPUTE pl 0 [ds] [],
              CmdDispatch cmdBuffer (vec_x (numWorkGroups spec)) (vec_y (numWorkGroups spec))
                (vec_z (numWorkGroups spec)),
              EndCommandBuffer cmdBuffer,
              CreateFence 0 fence,
              QueueSubmit (universalQueue ctx) [cmdBuffer] fence,
              WaitForFences [fence] 0 infiniteTimeout]
           \<and> CreateComputePipeline 0 VK_SHADER_STAGE_COMPUTE shader 0 pl 0 computePipeline \<in> set before
           \<and> AllocDescriptorSet pool VK_DESCRIPTOR_SET_USAGE_ONE_SHOT dsl ds \<in> set before
           \<and> CreatePipelineLayout [dsl] 0 pl \<in> set before"
  using iterate_run_calls [OF assms]
  apply (elim exE conjE)
  subgoal for s0 dsl pl pool ds binary module shader computePipeline cmdPool cmdBuffer fence
    apply (rule exI [of _ cmdBuffer], rule exI [of _ computePipeline], rule exI [of _ pl])
    apply (rule exI [of _ ds], rule exI [of _ fence])
    apply (rule exI [of _ "calls s0 @
               [CreateDescriptorSetLayout
                  (replicate (length (inputs spec) + length (outputs spec))
                     (VK_DESCRIPTOR_TYPE_STORAGE_BUFFER, VK_SHADER_STAGE_COMPUTE)) dsl,
                CreatePipelineLayout [dsl] 0 pl,
                CreateDescriptorPool
                  [(VK_DESCRIPTOR_TYPE_STORAGE_BUFFER, of_nat (length (inputs spec) + length (outputs spec)))]
                  VK_DESCRIPTOR_POOL_USAGE_ONE_SHOT 1 pool,
                AllocDescriptorSet pool VK_DESCRIPTOR_SET_USAGE_ONE_SHOT dsl ds,
                UpdateDescriptorSets (map (writeOf ds (descriptorInfos l))
                  [0..<length (inputs spec) + length (outputs spec)]),
                CreateShaderModule binary 0 module,
                CreateShader module ''main'' 0 VK_SHADER_STAGE_COMPUTE shader,
                CreateComputePipeline 0 VK_SHADER_STAGE_COMPUTE shader 0 pl 0 computePipeline,
                CreateCommandPool (universalQueueFamilyIndex ctx) 0 cmdPool,
                CreateCommandBuffer cmdPool VK_CMD_BUFFER_LEVEL_PRIMARY 0 cmdBuffer]"])
    apply (rule exI [of _ shader], rule exI [of _ pool], rule exI [of _ dsl])
    apply (simp add: bufferSetup_none)
    done
  done

theorem recorded_commands_witness:
  "iterate_run copyContext copySpec = Some (Inr (copyLocals, copyDone))
   \<and> filter isCommand (calls copyDone) =
       [CmdBindPipeline 18 VK_PIPELINE_BIND_POINT_COMPUTE 16,
        CmdBindDescriptorSets 18 VK_PIPELINE_BIND_POINT_COMPUTE 10 0 [12] [],
        CmdDispatch 18 1 1 1]
   \<and> (\<exists>cmdBuffer computePipeline pl ds fence before shader pool dsl.
           filter isCommand (calls copyDone) =
             [CmdBindPipeline cmdBuffer VK_PIPELINE_BIND_POINT_COMPUTE computePipeline,
              CmdBindDescriptorSets cmdBuffer VK_PIPELINE_BIND_POINT_COMPUTE pl 0 [ds] [],
              CmdDispatch cmdBuffer (vec_x (numWorkGroups copySpec)) (vec_y (numWorkGroups copySpec))
                (vec_z (numWorkGroups copySpec))]
           \<and> calls copyDone = before @
             [BeginCommandBuffer cmdBuffer VK_CMD_BUFFER_OPTIMIZE_ONE_TIME_SUBMIT_BIT,
              CmdBindPipeline cmdBuffer VK_PIPELINE_BIND_POINT_COMPUTE computePipeline,
              CmdBindDescriptorSets cmdBuffer VK_PIPELINE_BIND_POINT_COMPUTE pl 0 [ds] [],
              CmdDispatch cmdBuffer (vec_x (numWorkGroups copySpec)) (vec_y (numWorkGroups copySpec))
                (vec_z (numWorkGroups copySpec)),
              EndCommandBuffer cmdBuffer,
              CreateFence 0 fence,
              QueueSubmit (universalQueue copyContext) [cmdBuffer] fence,
              WaitForFences [fence] 0 infiniteTimeout]
           \<and> CreateComputePipeline 0 VK_SHADER_STAGE_COMPUTE shader 0 pl 0 computePipeline \<in> set before
           \<and> AllocDescriptorSet pool VK_DESCRIPTOR_SET_USAGE_ONE_SHOT dsl ds \<in> set before
           \<and> CreatePipelineLayout [dsl] 0 pl \<in> set before)"
proof -
  have "filter isCommand (calls copyDone) =
       [CmdBindPipeline 18 VK_PIPELINE_BIND_POINT_COMPUTE 16,
        CmdBindDescriptorSets 18 VK_PIPELINE_BIND_POINT_COMPUTE 10 0 [12] [],
        CmdDispatch 18 1 1 1]"
    by (simp add: copyDone_def copyBufferCalls_def copyRunCalls_def)
  with copy_run recorded_commands [OF copy_run] show ?thesis by (intro conjI)
qed

text \<open>
  C2. In a run that reaches the check, exactly one descriptor set layout has been created,
  with as many bindings as there are declared inputs and outputs, all of them storage
  buffers for the compute stage, and the descriptor writes issued are exactly one per
  slot: the write for slot \<open>i\<close> has binding \<open>i\<close> and refers, at offset 0 and over its
  declared length, to the buffer created for the \<open>i\<close>-th entry of the inputs followed by
  the outputs. That buffer is the one the loops created for this entry: for an input, its
  memory starts with the input's bytes; for an output, with as many zero bytes.
\<close>

theorem binding_slots:
  assumes "iterate_run ctx spec = Some (Inr (l, s))"
  shows "length (inputs spec) + length (outputs spec) < 2 ^ 32
    \<and> length (inputBuffers l) = length (inputs spec)
    \<and> length (outputBuffers l) = length (outputs spec)
    \<and> createdLayouts (calls s) =
         [replicate (length (inputs spec) + length (outputs spec))
            (VK_DESCRIPTOR_TYPE_STORAGE_BUFFER, VK_SHADER_STAGE_COMPUTE)]
    \<and> (\<exists>ds. descriptorWrites (calls s) =
           map (\<lambda>i. \<lparr>destSet = ds, destBinding = of_nat i,
                       descriptorType = VK_DESCRIPTOR_TYPE_STORAGE_BUFFER,
                       descriptorInfo = createDescriptorInfo ((inputBuffers l @ outputBuffers l) ! i) 0
                                          (length ((inputs spec @ outputs spec) ! i))\<rparr>)
               [0..<length (inputs spec) + length (outputs spec)])
    \<and> (\<exists>s0. iterate_buffers ctx spec = Inr (l, s0)
          \<and> (\<forall>i<length (inputs spec).
                 bufferReady s0 ((inputBuffers l @ outputBuffers l) ! i) (inputAllocs l ! i) (inputs spec ! i))
          \<and> (\<forall>i<length (outputs spec).
                 bufferReady s0 ((inputBuffers l @ outputBuffers l) ! (length (inputs spec) + i))
                   (outputAllocs l ! i) (replicate (length (outputs spec ! i)) 0)))"
  using iterate_run_calls [OF assms]
  apply (elim exE conjE)
  subgoal for s0 dsl pl pool ds binary module shader computePipeline cmdPool cmdBuffer fence
  proof -
    assume b: "iterate_buffers ctx spec = Inr (l, s0)"
      and only: "list_all isBufferSetup (calls s0)"
      and small: "length (inputs spec) + length (outputs spec) < 2 ^ 32"
      and c: "calls s = calls s0 @
               [CreateDescriptorSetLayout
                  (replicate (length (inputs spec) + length (outputs spec))
                     (VK_DESCRIPTOR_TYPE_STORAGE_BUFFER, VK_SHADER_STAGE_COMPUTE)) dsl,
                CreatePipelineLayout [dsl] 0 pl,
                CreateDescriptorPool
                  [(VK_DESCRIPTOR_TYPE_STORAGE_BUFFER, of_nat (length (inputs spec) + length (outputs spec)))]
                  VK_DESCRIPTOR_POOL_USAGE_ONE_SHOT 1 pool,
                AllocDescriptorSet pool VK_DESCRIPTOR_SET_USAGE_ONE_SHOT dsl ds,
                UpdateDescriptorSets (map (writeOf ds (descriptorInfos l))
                  [0..<length (inputs spec) + length (outputs spec)]),
                CreateShaderModule binary 0 module,
                CreateShader module ''main'' 0 VK_SHADER_STAGE_COMPUTE shader,
                CreateComputePipeline 0 VK_SHADER_STAGE_COMPUTE shader 0 pl 0 computePipeline,
                CreateCommandPool (universalQueueFamilyIndex ctx) 0 cmdPool,
                CreateCommandBuffer cmdPool VK_CMD_BUFFER_LEVEL_PRIMARY 0 cmdBuffer,
                BeginCommandBuffer cmdBuffer VK_CMD_BUFFER_OPTIMIZE_ONE_TIME_SUBMIT_BIT,
                CmdBindPipeline cmdBuffer VK_PIPELINE_BIND_POINT_COMPUTE computePipeline,
                CmdBindDescriptorSets cmdBuffer VK_PIPELINE_BIND_POINT_COMPUTE pl 0 [ds] [],
                CmdDispatch cmdBuffer (vec_x (numWorkGroups spec)) (vec_y (numWorkGroups spec))
                  (vec_z (numWorkGroups spec)),
                EndCommandBuffer cmdBuffer,
                CreateFence 0 fence,
                QueueSubmit (universalQueue ctx) [cmdBuffer] fence,
                WaitForFences [fence] 0 infiniteTimeout]"
    let ?n = "length (inputs spec) + length (outputs spec)"
    let ?bufs = "inputBuffers l @ outputBuffers l" and ?decl = "inputs spec @ outputs spec"
    note B = iterate_buffers_Inr [OF b]
    from B have li: "length (inputBuffers l) = length (inputs spec)"
      and lo: "length (outputBuffers l) = length (outputs spec)"
      and di: "descriptorInfos l = map2 (\<lambda>b d. createDescriptorInfo b 0 (length d)) ?bufs ?decl"
      and ri: "\<forall>i<length (inputs spec). bufferReady s0 (inputBuffers l ! i) (inputAllocs l ! i) (inputs spec ! i)"
      and ro: "\<forall>i<length (outputs spec). bufferReady s0 (outputBuffers l ! i) (outputAllocs l ! i)
                                       (replicate (length (outputs spec ! i)) 0)"
      by simp_all
    from bufferSetup_none [OF only] have none: "descriptorWrites (calls s0) = []" "createdLayouts (calls s0) = []"
      by simp_all
    have lay: "createdLayouts (calls s) =
         [replicate ?n (VK_DESCRIPTOR_TYPE_STORAGE_BUFFER, VK_SHADER_STAGE_COMPUTE)]"
      unfolding c by (simp add: none) (simp add: createdLayouts_def)
    have w: "descriptorWrites (calls s) = map (writeOf ds (descriptorInfos l)) [0..<?n]"
      unfolding c by (simp add: none) (simp add: descriptorWrites_def)
    have nth: "descriptorInfos l ! i = createDescriptorInfo (?bufs ! i) 0 (length (?decl ! i))"
      if "i < ?n" for i
      unfolding di using that li lo by (simp del: zip_append map_append add: nth_zip)
    have "map (writeOf ds (descriptorInfos l)) [0..<?n] =
           map (\<lambda>i. \<lparr>destSet = ds, destBinding = of_nat i,
                       descriptorType = VK_DESCRIPTOR_TYPE_STORAGE_BUFFER,
                       descriptorInfo = createDescriptorInfo (?bufs ! i) 0 (length (?decl ! i))\<rparr>)
               [0..<?n]"
      using nth by (intro map_cong refl) (simp add: writeOf_def)
    with w have w': "\<exists>ds. descriptorWrites (calls s) =
           map (\<lambda>i. \<lparr>destSet = ds, destBinding = of_nat i,
                       descriptorType = VK_DESCRIPTOR_TYPE_STORAGE_BUFFER,
                       descriptorInfo = createDescriptorInfo (?bufs ! i) 0 (length (?decl ! i))\<rparr>)
               [0..<?n]"
      by (intro exI [of _ ds]) simp
    have ri': "\<forall>i<length (inputs spec). bufferReady s0 (?bufs ! i) (inputAllocs l ! i) (inputs spec ! i)"
      using ri li by (simp add: nth_append)
    have ro': "\<forall>i<length (outputs spec). bufferReady s0 (?bufs ! (length (inputs spec) + i))
                   (outputAllocs l ! i) (replicate (length (outputs spec ! i)) 0)"
      using ro li by (simp add: nth_append)
    from b ri' ro' have last: "\<exists>s0. iterate_buffers ctx spec = Inr (l, s0)
          \<and> (\<forall>i<length (inputs spec). bufferReady s0 (?bufs ! i) (inputAllocs l ! i) (inputs spec ! i))
          \<and> (\<forall>i<length (outputs spec). bufferReady s0 (?bufs ! (length (inputs spec) + i))
                   (outputAllocs l ! i) (replicate (length (outputs spec ! i)) 0))"
      by (intro exI [of _ s0] conjI)
    from small li lo lay w' last show ?thesis by (intro conjI)
  qed
  done

theorem binding_slots_witness:
  "iterate_run copyContext copySpec = Some (Inr (copyLocals, copyDone))
   \<and> descriptorWrites (calls copyDone) =
        [\<lparr>destSet = 12, destBinding = 0, descriptorType = VK_DESCRIPTOR_TYPE_STORAGE_BUFFER,
          descriptorInfo = createDescriptorInfo 1 0 4\<rparr>,
         \<lparr>destSet = 12, destBinding = 1, descriptorType = VK_DESCRIPTOR_TYPE_STORAGE_BUFFER,
          descriptorInfo = createDescriptorInfo 5 0 4\<rparr>]
   \<and> length (inputs copySpec) + length (outputs copySpec) < 2 ^ 32
   \<and> length (inputBuffers copyLocals) = length (inputs copySpec)
   \<and> length (outputBuffers copyLocals) = length (outputs copySpec)
   \<and> createdLayouts (calls copyDone) =
         [replicate (length (inputs copySpec) + length (outputs copySpec))
            (VK_DESCRIPTOR_TYPE_STORAGE_BUFFER, VK_SHADER_STAGE_COMPUTE)]
   \<and> (\<exists>ds. descriptorWrites (calls copyDone) =
           map (\<lambda>i. \<lparr>destSet = ds, destBinding = of_nat i,
                       descriptorType = VK_DESCRIPTOR_TYPE_STORAGE_BUFFER,
                       descriptorInfo = createDescriptorInfo ((inputBuffers copyLocals @ outputBuffers copyLocals) ! i) 0
                                          (length ((inputs copySpec @ outputs copySpec) ! i))\<rparr>)
               [0..<length (inputs copySpec) + length (outputs copySpec)])
   \<and> (\<exists>s0. iterate_buffers copyContext copySpec = Inr (copyLocals, s0)
          \<and> (\<forall>i<length (inputs copySpec).
                 bufferReady s0 ((inputBuffers copyLocals @ outputBuffers copyLocals) ! i)
                   (inputAllocs copyLocals ! i) (inputs copySpec ! i))
          \<and> (\<forall>i<length (outputs copySpec).
                 bufferReady s0 ((inputBuffers copyLocals @ outputBuffers copyLocals) ! (length (inputs copySpec) + i))
                   (outputAllocs copyLocals ! i) (replicate (length (outputs copySpec ! i)) 0)))"
proof -
  have "descriptorWrites (calls copyDone) =
        [\<lparr>destSet = 12, destBinding = 0, descriptorType = VK_DESCRIPTOR_TYPE_STORAGE_BUFFER,
          descriptorInfo = createDescriptorInfo 1 0 4\<rparr>,
         \<lparr>destSet = 12, destBinding = 1, descriptorType = VK_DESCRIPTOR_TYPE_STORAGE_BUFFER,
          descriptorInfo = createDescriptorInfo 5 0 4\<rparr>]"
    by (simp add: descriptorWrites_def copyDone_def copyBufferCalls_def copyRunCalls_def)
  with copy_run binding_slots [OF copy_run] show ?thesis by (intro conjI) simp_all
qed

text \<open>
  C3, as amended. Constructing the test case and its instance keeps the specification
  as it is, whatever its outputs: nothing is rejected there. In a build that checks
  assertions, \<open>iterate\<close> on a specification without outputs fails its assertion, whatever
  the device does, and returns no verdict; so in such a build every run that reaches the
  check has at least one output.
\<close>

theorem empty_outputs_asserted:
  "m_shaderSpec (createInstance (newSpvAsmComputeShaderCase name description spec) ctx) = spec
   \<and> m_context (createInstance (newSpvAsmComputeShaderCase name description spec) ctx) = ctx
   \<and> (DE_DEBUG ctx \<and> outputs spec = [] \<longrightarrow>
        iterate (createInstance (newSpvAsmComputeShaderCase name description spec) ctx)
          = Some (Inl AssertionFailed))
   \<and> (DE_DEBUG ctx \<and> iterate_run ctx spec = Some (Inr (l, s)) \<longrightarrow> outputs spec \<noteq> [])"
proof (intro conjI impI)
  show 1: "m_shaderSpec (createInstance (newSpvAsmComputeShaderCase name description spec) ctx) = spec"
    and 2: "m_context (createInstance (newSpvAsmComputeShaderCase name description spec) ctx) = ctx"
    by (simp_all add: createInstance_def newSpvAsmComputeShaderInstance_def newSpvAsmComputeShaderCase_def)
  assume "DE_DEBUG ctx \<and> outputs spec = []"
  then have "iterate_buffers ctx spec = Inl AssertionFailed"
    by (simp add: iterate_buffers_def DE_ASSERT_def)
  then show "iterate (createInstance (newSpvAsmComputeShaderCase name description spec) ctx)
          = Some (Inl AssertionFailed)"
    by (simp add: iterate_def 1 2 iterate_run_def)
next
  assume a: "DE_DEBUG ctx \<and> iterate_run ctx spec = Some (Inr (l, s))"
  then obtain s0 where "iterate_buffers ctx spec = Inr (l, s0)"
    using iterate_run_Inr [of ctx spec l s] by blast
  from iterate_buffers_Inr [OF this] a show "outputs spec \<noteq> []" by simp
qed

theorem empty_outputs_asserted_witness:
  "DE_DEBUG copyContext \<and> outputs noOutputSpec = []
   \<and> iterate (createInstance (newSpvAsmComputeShaderCase ''none'' ''no outputs'' noOutputSpec) copyContext)
        = Some (Inl AssertionFailed)
   \<and> iterate_run copyContext copySpec = Some (Inr (copyLocals, copyDone))
   \<and> outputs copySpec \<noteq> []"
proof -
  have h: "DE_DEBUG copyContext \<and> outputs noOutputSpec = []"
    by (simp add: noOutputSpec_def)
  have g: "DE_DEBUG copyContext \<and> iterate_run copyContext copySpec = Some (Inr (copyLocals, copyDone))"
    by (simp add: copy_run)
  from empty_outputs_asserted [of "''none''" "''no outputs''" noOutputSpec copyContext copyLocals copyDone]
    empty_outputs_asserted [of "''none''" "''no outputs''" copySpec copyContext copyLocals copyDone]
    h g
  show ?thesis by (intro conjI) simp_all
qed

text \<open>
  C3 as stated fails: a specification without outputs is constructed like any other,
  and in a build without assertions its run reaches the check and passes.
\<close>

theorem empty_outputs_pass_counterexample:
  "outputs noOutputSpec = []
   \<and> m_shaderSpec (createInstance (newSpvAsmComputeShaderCase ''none'' ''no outputs'' noOutputSpec) releaseContext)
       = noOutputSpec
   \<and> iterate (createInstance (newSpvAsmComputeShaderCase ''none'' ''no outputs'' noOutputSpec) releaseContext)
       = Some (Inr (TestStatus_pass ''Ouput match with expected''))"
  by (simp add: iterate_def createInstance_def newSpvAsmComputeShaderInstance_def
      newSpvAsmComputeShaderCase_def noOutput_run) (simp add: noOutputSpec_def)

end
